theory Spec2Isabelle
  imports Main "HOL-Library.Word"
begin

section \<open>The EBS volume driver of blocker (ebs\_driver.go)\<close>

text \<open>
  The driver talks to three outside parties: the EC2 API, the local file system and
  a handful of OS commands. The embedding passes them in as a record of functions over
  an arbitrary world type \<open>'w\<close>, so every theorem below holds for every behaviour of the
  provider and of the operating system. A call that can change the world takes the world
  and returns the new one. \<open>os.Stat\<close> and \<open>os.Lstat\<close> only read the world.

  Beside the world the state carries a trace: the list of calls the driver has issued,
  oldest first. The trace is ghost state (the Go code has no such list); it is what
  statements of the form "no attach request is issued" are about. The evaluation of a
  poll condition is recorded as well, as \<open>EvCheck\<close>. The \<open>log\<close> calls of the source
  print progress messages only and are left out.
\<close>

subsection \<open>Errors\<close>

text \<open>
  A Go \<open>error\<close> value. The code looks inside an error in two places only: it asks
  whether an AWS error has the code \<open>InvalidParameterValue\<close>, and whether an
  \<open>os.Lstat\<close> error satisfies \<open>os.IsNotExist\<close>. \<open>Panic\<close> stands for a run-time
  panic (an index out of range).
\<close>

datatype error =
    ErrorString string
  | AwsError string string
  | ErrNotExist string
  | Panic string

fun Error :: "error \<Rightarrow> string" where
  "Error (ErrorString m) = m"
| "Error (AwsError code m) = code @ '': '' @ m"
| "Error (ErrNotExist m) = m"
| "Error (Panic m) = m"

fun os_IsNotExist :: "error option \<Rightarrow> bool" where
  "os_IsNotExist (Some (ErrNotExist m)) = True"
| "os_IsNotExist e = False"

subsection \<open>Provider data\<close>

record tag =
  Key :: string
  Value :: string

record attachment =
  att_Device :: string
  att_InstanceId :: string
  att_State :: string

record volume =
  VolumeId :: string
  vol_State :: string
  Attachments :: "attachment list"
  Tags :: "tag list"

definition VolumeAttachmentStateAttached :: string where
  "VolumeAttachmentStateAttached = ''attached''"

definition VolumeStateAvailable :: string where
  "VolumeStateAvailable = ''available''"

record ebsVolumeDriver =
  awsInstanceId :: string
  awsRegion :: string
  awsAvailabilityZone :: string

subsection \<open>The outside world\<close>

datatype event =
    EvDescribeVolumes string "string list"
  | EvCreateVolume string "64 word"
  | EvCreateTags string string string
  | EvAttachVolume string string string
  | EvDetachVolume string string
  | EvMkdirAll string
  | EvRemove string
  | EvCommand string "string list"
  | EvSleep nat
  | EvCheck volume

record 'w env =
  env_DescribeVolumes :: "string \<Rightarrow> string list \<Rightarrow> 'w \<Rightarrow> (error + volume list) \<times> 'w"
  env_CreateVolume :: "string \<Rightarrow> 64 word \<Rightarrow> 'w \<Rightarrow> (error + volume) \<times> 'w"
  env_CreateTags :: "string \<Rightarrow> string \<Rightarrow> string \<Rightarrow> 'w \<Rightarrow> 'w"
  env_AttachVolume :: "string \<Rightarrow> string \<Rightarrow> string \<Rightarrow> 'w \<Rightarrow> error option \<times> 'w"
  env_DetachVolume :: "string \<Rightarrow> string \<Rightarrow> 'w \<Rightarrow> error option \<times> 'w"
  env_Lstat :: "'w \<Rightarrow> string \<Rightarrow> error option"
  env_Stat :: "'w \<Rightarrow> string \<Rightarrow> error + bool"
  env_Mkdir :: "string \<Rightarrow> 'w \<Rightarrow> error option \<times> 'w"
  env_Remove :: "string \<Rightarrow> 'w \<Rightarrow> error option \<times> 'w"
  env_Command :: "string \<Rightarrow> string list \<Rightarrow> 'w \<Rightarrow> (string \<times> error option) \<times> 'w"
  env_Sleep :: "nat \<Rightarrow> 'w \<Rightarrow> 'w"

type_synonym 'w state = "'w \<times> event list"

text \<open>
  The calls as the driver makes them: each one appends itself to the trace and hands
  the world to the environment. \<open>os.Stat\<close> answers \<open>Inr True\<close> for a directory,
  \<open>Inr False\<close> for any other file and \<open>Inl err\<close> when the path cannot be examined.
\<close>

definition ec2_DescribeVolumes ::
  "'w env \<Rightarrow> string \<Rightarrow> string list \<Rightarrow> 'w state \<Rightarrow> (error + volume list) \<times> 'w state" where
  "ec2_DescribeVolumes env fname fvalues s =
     (case s of (w, tr) \<Rightarrow>
        (case env_DescribeVolumes env fname fvalues w of
           (r, w') \<Rightarrow> (r, (w', tr @ [EvDescribeVolumes fname fvalues]))))"

definition ec2_CreateVolume ::
  "'w env \<Rightarrow> string \<Rightarrow> 64 word \<Rightarrow> 'w state \<Rightarrow> (error + volume) \<times> 'w state" where
  "ec2_CreateVolume env az sz s =
     (case s of (w, tr) \<Rightarrow>
        (case env_CreateVolume env az sz w of
           (r, w') \<Rightarrow> (r, (w', tr @ [EvCreateVolume az sz]))))"

definition ec2_CreateTags ::
  "'w env \<Rightarrow> string \<Rightarrow> string \<Rightarrow> string \<Rightarrow> 'w state \<Rightarrow> 'w state" where
  "ec2_CreateTags env resource k v s =
     (case s of (w, tr) \<Rightarrow> (env_CreateTags env resource k v w, tr @ [EvCreateTags resource k v]))"

definition ec2_AttachVolume ::
  "'w env \<Rightarrow> string \<Rightarrow> string \<Rightarrow> string \<Rightarrow> 'w state \<Rightarrow> error option \<times> 'w state" where
  "ec2_AttachVolume env device instance vid s =
     (case s of (w, tr) \<Rightarrow>
        (case env_AttachVolume env device instance vid w of
           (r, w') \<Rightarrow> (r, (w', tr @ [EvAttachVolume device instance vid]))))"

definition ec2_DetachVolume ::
  "'w env \<Rightarrow> string \<Rightarrow> string \<Rightarrow> 'w state \<Rightarrow> error option \<times> 'w state" where
  "ec2_DetachVolume env instance vid s =
     (case s of (w, tr) \<Rightarrow>
        (case env_DetachVolume env instance vid w of
           (r, w') \<Rightarrow> (r, (w', tr @ [EvDetachVolume instance vid]))))"

definition os_Lstat :: "'w env \<Rightarrow> string \<Rightarrow> 'w state \<Rightarrow> error option" where
  "os_Lstat env path s = env_Lstat env (fst s) path"

definition os_Stat :: "'w env \<Rightarrow> string \<Rightarrow> 'w state \<Rightarrow> error + bool" where
  "os_Stat env path s = env_Stat env (fst s) path"

text \<open>
  \<open>os.MkdirAll\<close> of the Go library starts with a fast path: it stats the path, returns
  nil when the path is a directory already and fails when it is another kind of file.
  Only otherwise does it create directories, which is left to the environment.
\<close>

definition os_MkdirAll :: "'w env \<Rightarrow> string \<Rightarrow> 'w state \<Rightarrow> error option \<times> 'w state" where
  "os_MkdirAll env path s =
     (case s of (w, tr) \<Rightarrow>
        (case env_Stat env w path of
           Inr isDir \<Rightarrow>
             (if isDir then (None, (w, tr @ [EvMkdirAll path]))
              else (Some (ErrorString (''mkdir '' @ path @ '': not a directory'')),
                    (w, tr @ [EvMkdirAll path])))
         | Inl err \<Rightarrow>
             (case env_Mkdir env path w of
                (r, w') \<Rightarrow> (r, (w', tr @ [EvMkdirAll path])))))"

definition os_Remove :: "'w env \<Rightarrow> string \<Rightarrow> 'w state \<Rightarrow> error option \<times> 'w state" where
  "os_Remove env path s =
     (case s of (w, tr) \<Rightarrow>
        (case env_Remove env path w of
           (r, w') \<Rightarrow> (r, (w', tr @ [EvRemove path]))))"

definition exec_Command ::
  "'w env \<Rightarrow> string \<Rightarrow> string list \<Rightarrow> 'w state \<Rightarrow> (string \<times> error option) \<times> 'w state" where
  "exec_Command env name args s =
     (case s of (w, tr) \<Rightarrow>
        (case env_Command env name args w of
           (r, w') \<Rightarrow> (r, (w', tr @ [EvCommand name args]))))"

definition time_Sleep :: "'w env \<Rightarrow> nat \<Rightarrow> 'w state \<Rightarrow> 'w state" where
  "time_Sleep env seconds s =
     (case s of (w, tr) \<Rightarrow> (env_Sleep env seconds w, tr @ [EvSleep seconds]))"

subsection \<open>parsePath, Path\<close>

text \<open>\<open>strings.Index(path, "/")\<close>: the index of the first separator byte, or \<open>-1\<close>.\<close>

fun strings_Index :: "string \<Rightarrow> char \<Rightarrow> int" where
  "strings_Index [] c = - 1"
| "strings_Index (x # xs) c =
     (if x = c then 0
      else (let i = strings_Index xs c in if i < 0 then - 1 else i + 1))"

definition parsePath :: "string \<Rightarrow> string \<times> string" where
  "parsePath path =
     (let sep = strings_Index path (CHR ''/'') in
      if sep < 0 then (path, '''')
      else (take (nat sep) path, drop (nat sep) path))"

text \<open>
  A Go function returning \<open>(string, error)\<close> is modelled as returning the pair, so
  that the string returned beside an error (always \<open>""\<close> here) is visible to callers
  that read it.
\<close>

definition Path :: "'w env \<Rightarrow> string \<Rightarrow> 'w state \<Rightarrow> string \<times> error option" where
  "Path env path s =
     (case parsePath path of (volume, folder) \<Rightarrow>
        (let mnt = ''/mnt/blocker/'' @ volume @ folder in
         (case os_Stat env mnt s of
            Inl err \<Rightarrow> ('''', Some (ErrorString ''Volume not mounted.''))
          | Inr isDir \<Rightarrow>
              (if \<not> isDir then ('''', Some (ErrorString ''Volume not mounted.''))
               else (mnt, None)))))"

subsection \<open>Registry: getEBSVolume, Get, List\<close>

definition getEBSVolume :: "'w env \<Rightarrow> string \<Rightarrow> 'w state \<Rightarrow> (error + volume) \<times> 'w state" where
  "getEBSVolume env name s =
     (case ec2_DescribeVolumes env ''tag:Name'' [name] s of
        (Inl err, s1) \<Rightarrow> (Inl err, s1)
      | (Inr volumes, s1) \<Rightarrow>
          (case volumes of
             [] \<Rightarrow> (Inl (ErrorString ''Volume not found''), s1)
           | v # vs \<Rightarrow> (Inr v, s1)))"

definition Get ::
  "'w env \<Rightarrow> string \<Rightarrow> 'w state \<Rightarrow> (error + (string \<rightharpoonup> string)) \<times> 'w state" where
  "Get env name s =
     (case getEBSVolume env name s of
        (Inl err, s1) \<Rightarrow> (Inl err, s1)
      | (Inr ebs_volume, s1) \<Rightarrow>
          (let volume = Map.empty;
               volume = volume(''Name'' \<mapsto> name);
               volume = volume(''AwsVolumeId'' \<mapsto> VolumeId ebs_volume)
           in (case Path env name s1 of
                 (mount_path, err) \<Rightarrow>
                   (if err \<noteq> None then (Inr (volume(''Mountpoint'' \<mapsto> mount_path)), s1)
                    else (Inr volume, s1)))))"

text \<open>
  The body of the loop of \<open>List\<close>, for the volumes from \<open>index\<close> on.
  \<open>Tags[0]\<close> panics on a volume without tags.
\<close>

fun List_loop ::
  "'w env \<Rightarrow> volume list \<Rightarrow> 'w state \<Rightarrow> error + (string \<rightharpoonup> string) list" where
  "List_loop env [] s = Inr []"
| "List_loop env (v # vs) s =
     (case Tags v of
        [] \<Rightarrow> Inl (Panic ''index out of range'')
      | t # ts \<Rightarrow>
          (let name = Value t;
               entry = Map.empty;
               entry = entry(''Name'' \<mapsto> name);
               entry = entry(''AwsVolumeId'' \<mapsto> VolumeId v);
               entry = (case Path env name s of
                          (mount_path, path_err) \<Rightarrow>
                            (if path_err \<noteq> None then entry(''Mountpoint'' \<mapsto> mount_path)
                             else entry))
           in (case List_loop env vs s of
                 Inl err \<Rightarrow> Inl err
               | Inr volumes \<Rightarrow> Inr (entry # volumes))))"

definition List ::
  "'w env \<Rightarrow> 'w state \<Rightarrow> (error + (string \<rightharpoonup> string) list) \<times> 'w state" where
  "List env s =
     (case ec2_DescribeVolumes env ''tag-key'' [''Name''] s of
        (Inl err, s1) \<Rightarrow> (Inl err, s1)
      | (Inr vols, s1) \<Rightarrow> (List_loop env vols s1, s1))"

subsection \<open>State Poller: waitUntilState\<close>

text \<open>
  The loop of \<open>waitUntilState\<close>, entered with the counter \<open>tries\<close>. The counter is a
  Go \<open>int\<close>, 64 bits wide here, and the loop leaves only when it equals 12 exactly;
  the function is total because the counter wraps around.
\<close>

function waitUntilState_loop ::
  "'w env \<Rightarrow> string \<Rightarrow> (volume \<Rightarrow> error option) \<Rightarrow> 64 word \<Rightarrow> 'w state
     \<Rightarrow> error option \<times> 'w state" where
  "waitUntilState_loop env name check tries s =
     (case getEBSVolume env name s of
        (Inl err, s1) \<Rightarrow> (Some err, s1)
      | (Inr volume, s1) \<Rightarrow>
          (case check volume of
             None \<Rightarrow> (None, (fst s1, snd s1 @ [EvCheck volume]))
           | Some err \<Rightarrow>
               (if tries + 1 = 12 then (Some err, (fst s1, snd s1 @ [EvCheck volume]))
                else waitUntilState_loop env name check (tries + 1)
                       (time_Sleep env 5 (fst s1, snd s1 @ [EvCheck volume])))))"
  by pat_completeness auto
termination
proof (relation "measure (\<lambda>(env, name, check, tries, s). unat (11 - tries))")
  show "wf (measure (\<lambda>(env, name, check, tries, s). unat (11 - tries)))"
    by simp
next
  fix tries :: "64 word"
  assume "tries + 1 \<noteq> 12"
  then have "11 - tries \<noteq> 0"
    by auto
  then have "unat (11 - tries - 1) = unat (11 - tries) - 1" and "0 < unat (11 - tries)"
    by (rule unat_minus_one, simp add: unat_gt_0)
  then have "unat (11 - tries - 1) < unat (11 - tries)"
    by arith
  moreover have "11 - tries - 1 = 11 - (tries + 1)"
    by (simp only: diff_diff_eq add.commute)
  ultimately have "unat (11 - (tries + 1)) < unat (11 - tries)"
    by (simp only:)
  then show "\<And>env name check s x1 x2 x y.
       ((env, name, check, tries + 1, time_Sleep env 5 (fst x2, snd x2 @ [EvCheck x])),
        (env, name, check, tries, s))
       \<in> measure (\<lambda>(env, name, check, tries, s). unat (11 - tries))"
    by simp
qed

declare waitUntilState_loop.simps [simp del]

definition waitUntilState ::
  "'w env \<Rightarrow> string \<Rightarrow> (volume \<Rightarrow> error option) \<Rightarrow> 'w state \<Rightarrow> error option \<times> 'w state" where
  "waitUntilState env name check s = waitUntilState_loop env name check 0 s"

subsection \<open>The three poll conditions\<close>

text \<open>\<open>%v\<close> of a non-negative integer, of an error value and of a nil error.\<close>

fun fmt_nat :: "nat \<Rightarrow> string" where
  "fmt_nat n =
     (if n < 10 then [char_of (48 + n)]
      else fmt_nat (n div 10) @ [char_of (48 + n mod 10)])"

fun fmt_err :: "error option \<Rightarrow> string" where
  "fmt_err None = ''<nil>''"
| "fmt_err (Some e) = Error e"

definition check_attached :: "volume \<Rightarrow> error option" where
  "check_attached volume =
     (if length (Attachments volume) = 1
         \<and> att_State (Attachments volume ! 0) = VolumeAttachmentStateAttached
      then None
      else if length (Attachments volume) \<noteq> 1
      then Some (ErrorString
             (''Volume state transition failed: expected 1 attachment, got ''
                @ fmt_nat (length (Attachments volume))))
      else Some (ErrorString
             (''Volume state transition failed: seeking '' @ VolumeAttachmentStateAttached
                @ '', current is '' @ att_State (Attachments volume ! 0))))"

definition check_dettached :: "volume \<Rightarrow> error option" where
  "check_dettached volume =
     (if length (Attachments volume) = 0 then None
      else Some (ErrorString ''Volume state transition failed: still has attachments''))"

definition check_available :: "volume \<Rightarrow> error option" where
  "check_available volume =
     (if vol_State volume = VolumeStateAvailable then None
      else Some (ErrorString
             (''Volume state transition failed: seeking '' @ VolumeStateAvailable
                @ '', current is '' @ vol_State volume)))"

definition waitUntilAttached :: "'w env \<Rightarrow> string \<Rightarrow> 'w state \<Rightarrow> error option \<times> 'w state" where
  "waitUntilAttached env name s = waitUntilState env name check_attached s"

definition waitUntilDettached :: "'w env \<Rightarrow> string \<Rightarrow> 'w state \<Rightarrow> error option \<times> 'w state" where
  "waitUntilDettached env name s = waitUntilState env name check_dettached s"

definition waitUntilAvailable :: "'w env \<Rightarrow> string \<Rightarrow> 'w state \<Rightarrow> error option \<times> 'w state" where
  "waitUntilAvailable env name s = waitUntilState env name check_available s"

subsection \<open>Device Slot Allocator: detachVolume, attachVolume\<close>

definition detachVolume ::
  "'w env \<Rightarrow> ebsVolumeDriver \<Rightarrow> string \<Rightarrow> 'w state \<Rightarrow> error option \<times> 'w state" where
  "detachVolume env d name s =
     (case getEBSVolume env name s of
        (Inl err, s1) \<Rightarrow> (Some err, s1)
      | (Inr volume, s1) \<Rightarrow>
          (case ec2_DetachVolume env (awsInstanceId d) (VolumeId volume) s1 of
             (Some err, s2) \<Rightarrow> (Some err, s2)
           | (None, s2) \<Rightarrow>
               (case waitUntilDettached env name s2 of
                  (Some err, s3) \<Rightarrow> (Some err, s3)
                | (None, s3) \<Rightarrow> (None, s3))))"

text \<open>
  The regular expression \<open>/dev/(xv|s)d([f-p])\<close>. \<open>dev_match\<close> matches it at the start
  of a string and \<open>dev_FindStringSubmatch\<close> finds the leftmost match anywhere in the
  string, as \<open>FindStringSubmatch\<close> does: the result is the match followed by the two
  groups, or the empty list when there is no match.
\<close>

definition dev_match :: "string \<Rightarrow> string list" where
  "dev_match str =
     (if take 8 str = ''/dev/xvd'' \<and> 8 < length str \<and> str ! 8 \<in> set ''fghijklmnop''
      then [take 9 str, ''xv'', [str ! 8]]
      else if take 7 str = ''/dev/sd'' \<and> 7 < length str \<and> str ! 7 \<in> set ''fghijklmnop''
      then [take 8 str, ''s'', [str ! 7]]
      else [])"

fun dev_FindStringSubmatch :: "string \<Rightarrow> string list" where
  "dev_FindStringSubmatch [] = []"
| "dev_FindStringSubmatch (x # xs) =
     (if dev_match (x # xs) \<noteq> [] then dev_match (x # xs)
      else dev_FindStringSubmatch xs)"

text \<open>
  Lines 341 to 356 of \<open>attachVolume\<close>: the volume is attached to this instance
  already. \<open>Some r\<close> is a \<open>return\<close> of \<open>r\<close>; \<open>None\<close> means that control leaves the
  block and goes on to \<open>waitUntilAvailable\<close>.
\<close>

definition attachVolume_attached ::
  "'w env \<Rightarrow> ebsVolumeDriver \<Rightarrow> string \<Rightarrow> volume \<Rightarrow> 'w state
     \<Rightarrow> (string \<times> error option) option" where
  "attachVolume_attached env d name volume s =
     (if length (Attachments volume) = 1 then
        (if att_State (Attachments volume ! 0) = VolumeAttachmentStateAttached
            \<and> att_InstanceId (Attachments volume ! 0) = awsInstanceId d then
           (let res = dev_FindStringSubmatch (att_Device (Attachments volume ! 0)) in
            if length res \<noteq> 3 then
              Some ('''', Some (ErrorString (''Unable to find mount device for '' @ name)))
            else if os_Lstat env (''/dev/sd'' @ res ! 2) s = None then
              Some (''/dev/sd'' @ res ! 2, None)
            else if os_Lstat env (''/dev/xvd'' @ res ! 2) s = None then
              Some (''/dev/xvd'' @ res ! 2, None)
            else None)
         else None)
      else None)"

definition is_InvalidParameterValue :: "error \<Rightarrow> bool" where
  "is_InvalidParameterValue err =
     (case err of AwsError code m \<Rightarrow> code = ''InvalidParameterValue'' | _ \<Rightarrow> False)"

text \<open>The \<open>for\<close> loop of \<open>attachVolume\<close> over the device letters still to be tried.\<close>

fun attachVolume_scan ::
  "'w env \<Rightarrow> ebsVolumeDriver \<Rightarrow> string \<Rightarrow> volume \<Rightarrow> string \<Rightarrow> 'w state
     \<Rightarrow> (string \<times> error option) \<times> 'w state" where
  "attachVolume_scan env d name volume [] s =
     (('''', Some (ErrorString ''No devices available for attach: /dev/sd[f-p] taken.'')), s)"
| "attachVolume_scan env d name volume (c # cs) s =
     (if os_Lstat env (''/dev/sd'' @ [c]) s = None then
        attachVolume_scan env d name volume cs s
      else if os_Lstat env (''/dev/xvd'' @ [c]) s = None then
        attachVolume_scan env d name volume cs s
      else
        (case ec2_AttachVolume env (''/dev/sd'' @ [c]) (awsInstanceId d) (VolumeId volume) s of
           (Some err, s1) \<Rightarrow>
             (if is_InvalidParameterValue err then attachVolume_scan env d name volume cs s1
              else (('''', Some err), s1))
         | (None, s1) \<Rightarrow>
             (case waitUntilAttached env name s1 of
                (Some err, s2) \<Rightarrow> (('''', Some err), s2)
              | (None, s2) \<Rightarrow>
                  (if os_IsNotExist (os_Lstat env (''/dev/sd'' @ [c]) s2) then
                     (if os_IsNotExist (os_Lstat env (''/dev/xvd'' @ [c]) s2) then
                        (case detachVolume env d name s2 of
                           (derr, s3) \<Rightarrow>
                             (('''', Some (ErrorString
                                 (''Device '' @ ''/dev/sd'' @ [c] @ '' is missing after attach.''))),
                              s3))
                      else ((''/dev/xvd'' @ [c], None), s2))
                   else ((''/dev/sd'' @ [c], None), s2)))))"

definition attachVolume ::
  "'w env \<Rightarrow> ebsVolumeDriver \<Rightarrow> string \<Rightarrow> 'w state \<Rightarrow> (string \<times> error option) \<times> 'w state" where
  "attachVolume env d name s =
     (case getEBSVolume env name s of
        (Inl err, s1) \<Rightarrow> (('''', Some err), s1)
      | (Inr volume, s1) \<Rightarrow>
          (case attachVolume_attached env d name volume s1 of
             Some r \<Rightarrow> (r, s1)
           | None \<Rightarrow>
               (case waitUntilAvailable env name s1 of
                  (Some err, s2) \<Rightarrow> (('''', Some err), s2)
                | (None, s2) \<Rightarrow> attachVolume_scan env d name volume ''fghijklmnop'' s2)))"

subsection \<open>Orchestrator: doMount, Mount, doUnmount, Unmount, Remove\<close>

definition doMount ::
  "'w env \<Rightarrow> ebsVolumeDriver \<Rightarrow> string \<Rightarrow> 'w state \<Rightarrow> (string \<times> error option) \<times> 'w state" where
  "doMount env d name s =
     (let mnt = ''/mnt/blocker/'' @ name in
      case os_MkdirAll env mnt s of
        (Some err, s1) \<Rightarrow> (('''', Some err), s1)
      | (None, s1) \<Rightarrow>
          (if os_Stat env mnt s1 \<noteq> Inr True then
             (('''', Some (ErrorString
                 (''Mountpoint '' @ mnt @ '' is not a directory: ''
                    @ fmt_err (case os_Stat env mnt s1 of Inl err \<Rightarrow> Some err | Inr b \<Rightarrow> None)))),
              s1)
           else
             (case exec_Command env ''mountpoint'' [''-q'', mnt] s1 of
                ((out0, None), s2) \<Rightarrow> ((mnt, None), s2)
              | ((out0, Some err0), s2) \<Rightarrow>
                  (case attachVolume env d name s2 of
                     ((dev, Some err), s3) \<Rightarrow> (('''', Some err), s3)
                   | ((dev, None), s3) \<Rightarrow>
                       (case exec_Command env ''mount'' [dev, mnt] s3 of
                          ((out, Some err), s4) \<Rightarrow>
                            (case detachVolume env d name s4 of
                               (derr, s5) \<Rightarrow>
                                 (('''', Some (ErrorString
                                     (''Mounting device '' @ dev @ '' to '' @ mnt @ '' failed: ''
                                        @ Error err @ [CHR 0x0A] @ out))),
                                  s5))
                        | ((out, None), s4) \<Rightarrow> ((mnt, None), s4))))))"

definition Mount ::
  "'w env \<Rightarrow> ebsVolumeDriver \<Rightarrow> string \<Rightarrow> 'w state \<Rightarrow> (string \<times> error option) \<times> 'w state" where
  "Mount env d path s =
     (case parsePath path of (volume, folder) \<Rightarrow>
        (case doMount env d volume s of
           ((mnt, Some err), s1) \<Rightarrow> (('''', Some err), s1)
         | ((mnt, None), s1) \<Rightarrow> ((mnt @ folder, None), s1)))"

definition doUnmount ::
  "'w env \<Rightarrow> ebsVolumeDriver \<Rightarrow> string \<Rightarrow> 'w state \<Rightarrow> error option \<times> 'w state" where
  "doUnmount env d name s =
     (let mnt = ''/mnt/blocker/'' @ name in
      case exec_Command env ''umount'' [mnt] s of
        ((out, Some err), s1) \<Rightarrow>
          (Some (ErrorString
             (''Unmounting '' @ mnt @ '' failed: '' @ Error err @ [CHR 0x0A] @ out)), s1)
      | ((out, None), s1) \<Rightarrow>
          (case os_Remove env mnt s1 of
             (Some err, s2) \<Rightarrow> (Some err, s2)
           | (None, s2) \<Rightarrow>
               (case detachVolume env d name s2 of
                  (Some err, s3) \<Rightarrow> (Some err, s3)
                | (None, s3) \<Rightarrow> (None, s3))))"

definition Remove ::
  "'w env \<Rightarrow> ebsVolumeDriver \<Rightarrow> string \<Rightarrow> 'w state \<Rightarrow> error option \<times> 'w state" where
  "Remove env d path s =
     (case parsePath path of (volume, folder) \<Rightarrow>
        (case doUnmount env d volume s of
           (Some err, s1) \<Rightarrow> (Some err, s1)
         | (None, s1) \<Rightarrow> (None, s1)))"

definition Unmount ::
  "'w env \<Rightarrow> ebsVolumeDriver \<Rightarrow> string \<Rightarrow> 'w state \<Rightarrow> error option \<times> 'w state" where
  "Unmount env d path s =
     (case parsePath path of (volume, folder) \<Rightarrow>
        (case doUnmount env d volume s of
           (Some err, s1) \<Rightarrow> (Some err, s1)
         | (None, s1) \<Rightarrow> (None, s1)))"

definition Capabilities :: "string \<rightharpoonup> string" where
  "Capabilities = Map.empty(''Scope'' \<mapsto> ''global'')"

subsection \<open>Create\<close>

text \<open>
  \<open>strconv.ParseInt(s, 10, 64)\<close> of the Go library, with \<open>ParseUint\<close> below it. Both
  return a number beside the error. A byte that is no decimal digit is a syntax error and
  the number is 0. A number too large is a range error, reported as soon as the digits
  read so far overflow, and the number is then the largest magnitude of the right sign.
  An \<open>int64\<close> is a 64-bit word in two's complement.
\<close>

datatype NumError = ErrSyntax | ErrRange

fun ParseUint_loop :: "string \<Rightarrow> 64 word \<Rightarrow> 64 word \<times> NumError option" where
  "ParseUint_loop [] n = (n, None)"
| "ParseUint_loop (c # cs) n =
     (if \<not> (48 \<le> (of_char c :: nat) \<and> (of_char c :: nat) \<le> 57) then (0, Some ErrSyntax)
      else if n \<ge> 1844674407370955162 then (- 1, Some ErrRange)
      else if n * 10 + of_nat (of_char c - 48) < n * 10 then (- 1, Some ErrRange)
      else ParseUint_loop cs (n * 10 + of_nat (of_char c - 48)))"

definition ParseUint :: "string \<Rightarrow> 64 word \<times> NumError option" where
  "ParseUint str = (if length str < 1 then (0, Some ErrSyntax) else ParseUint_loop str 0)"

definition ParseInt :: "string \<Rightarrow> 64 word \<times> NumError option" where
  "ParseInt str =
     (if str = [] then (0, Some ErrSyntax)
      else
        (let neg = (hd str = CHR ''-'');
             str1 = (if hd str = CHR ''+'' \<or> hd str = CHR ''-'' then tl str else str)
         in case ParseUint str1 of
              (un, Some ErrSyntax) \<Rightarrow> (0, Some ErrSyntax)
            | (un, err) \<Rightarrow>
                (if \<not> neg \<and> un \<ge> 2 ^ 63 then (2 ^ 63 - 1, Some ErrRange)
                 else if neg \<and> un > 2 ^ 63 then (- (2 ^ 63), Some ErrRange)
                 else (if neg then - un else un, None))))"

text \<open>Reading a key of a Go map of strings: a missing key reads as \<open>""\<close>.\<close>

definition map_index :: "(string \<rightharpoonup> string) \<Rightarrow> string \<Rightarrow> string" where
  "map_index m k = (case m k of None \<Rightarrow> '''' | Some v \<Rightarrow> v)"

definition Create ::
  "'w env \<Rightarrow> ebsVolumeDriver \<Rightarrow> string \<Rightarrow> (string \<rightharpoonup> string) \<Rightarrow> 'w state
     \<Rightarrow> error option \<times> 'w state" where
  "Create env d name options s =
     (case ParseInt (map_index options ''size'') of (sz, perr) \<Rightarrow>
        (case ec2_CreateVolume env (awsAvailabilityZone d) sz s of
           (Inl err, s1) \<Rightarrow> (Some err, s1)
         | (Inr volume, s1) \<Rightarrow>
             (let volumeId = VolumeId volume;
                  s2 = ec2_CreateTags env volumeId ''Name'' name s1
              in case attachVolume env d name s2 of
                   ((device, Some err), s3) \<Rightarrow> (Some err, s3)
                 | ((device, None), s3) \<Rightarrow>
                     (case exec_Command env ''mkfs'' [''-t'', ''ext4'', device] s3 of
                        ((out, Some err), s4) \<Rightarrow>
                          (case detachVolume env d name s4 of
                             (derr, s5) \<Rightarrow>
                               (Some (ErrorString
                                  (''Formatting device '' @ device @ '' failed: ''
                                     @ Error err @ [CHR 0x0A] @ out)),
                                s5))
                      | ((out, None), s4) \<Rightarrow>
                          (case detachVolume env d name s4 of
                             (derr, s5) \<Rightarrow> (None, s5))))))"

section \<open>Vocabulary of the statements\<close>

text \<open>The volumes on which a poll condition was evaluated, in order.\<close>

fun checks :: "event list \<Rightarrow> volume list" where
  "checks [] = []"
| "checks (EvCheck v # evs) = v # checks evs"
| "checks (e # evs) = checks evs"

text \<open>What the poller issues: lookups, evaluations of its condition and sleeps.\<close>

fun poll_event :: "event \<Rightarrow> bool" where
  "poll_event (EvDescribeVolumes fname fvalues) = True"
| "poll_event (EvCheck v) = True"
| "poll_event (EvSleep n) = True"
| "poll_event e = False"

fun attach_request :: "event \<Rightarrow> bool" where
  "attach_request (EvAttachVolume device instance vid) = True"
| "attach_request e = False"

text \<open>
  A device slot is occupied when one of its two local paths exists, that is, when
  \<open>os.Lstat\<close> returns no error for it.
\<close>

definition slot_occupied :: "'w env \<Rightarrow> 'w state \<Rightarrow> char \<Rightarrow> bool" where
  "slot_occupied env s c =
     (os_Lstat env (''/dev/sd'' @ [c]) s = None \<or> os_Lstat env (''/dev/xvd'' @ [c]) s = None)"

text \<open>
  What one run of the poller leaves in the trace, given the number of attempts it has
  left: lookups, evaluations of the condition and sleeps only; at most \<open>budget\<close>
  evaluations; every evaluation before the last event failed; a run that succeeds ends
  with an evaluation that succeeded; a run that fails ends either with a failed lookup
  after fewer than \<open>budget\<close> evaluations, or with the failed evaluation that
  used up the budget, whose error it returns.
\<close>

definition poll_post ::
  "string \<Rightarrow> (volume \<Rightarrow> error option) \<Rightarrow> nat \<Rightarrow> error option \<Rightarrow> event list \<Rightarrow> bool" where
  "poll_post name check budget r evs =
     (evs \<noteq> [] \<and> list_all poll_event evs \<and> length (checks evs) \<le> budget
      \<and> list_all (\<lambda>u. check u \<noteq> None) (checks (butlast evs))
      \<and> (case r of
            None \<Rightarrow> (\<exists>v. last evs = EvCheck v \<and> check v = None)
          | Some e \<Rightarrow>
              (\<exists>v. last evs = EvCheck v \<and> check v = Some e \<and> length (checks evs) = budget)
              \<or> (last evs = EvDescribeVolumes ''tag:Name'' [name]
                  \<and> length (checks evs) < budget)))"

text \<open>
  A chain of attempts of the poller, given by the states in which the attempts start.
  Every attempt but the last looked the volume up with success, evaluated the condition
  on the volume it got, found it failing, and slept for five seconds; the next attempt
  starts in the state the sleep left.
\<close>

fun failed_attempts ::
  "'w env \<Rightarrow> string \<Rightarrow> (volume \<Rightarrow> error option) \<Rightarrow> 'w state list \<Rightarrow> bool" where
  "failed_attempts env name check (s # s' # ss) =
     ((case getEBSVolume env name s of
         (Inl err, s1) \<Rightarrow> False
       | (Inr v, s1) \<Rightarrow>
           check v \<noteq> None \<and> s' = time_Sleep env 5 (fst s1, snd s1 @ [EvCheck v]))
      \<and> failed_attempts env name check (s' # ss))"
| "failed_attempts env name check ss = True"

section \<open>A simulated host and provider\<close>

text \<open>
  One concrete environment, on which the general theorems are instantiated and the
  driver is run. The provider keeps a list of volumes; an attach request attaches at
  once and makes the device node appear under the name requested, a detach request
  detaches at once. The host has device nodes, directories and live mount points.
\<close>

record world =
  w_volumes :: "volume list"
  w_devices :: "string list"
  w_dirs :: "string list"
  w_mounts :: "string list"

definition has_tag :: "string \<Rightarrow> string list \<Rightarrow> volume \<Rightarrow> bool" where
  "has_tag fname fvalues v =
     (if fname = ''tag-key'' then list_ex (\<lambda>t. Key t \<in> set fvalues) (Tags v)
      else if fname = ''tag:Name'' then
        list_ex (\<lambda>t. Key t = ''Name'' \<and> Value t \<in> set fvalues) (Tags v)
      else False)"

definition sim_attach :: "string \<Rightarrow> string \<Rightarrow> string \<Rightarrow> volume \<Rightarrow> volume" where
  "sim_attach device instance vid v =
     (if VolumeId v = vid then
        v\<lparr>vol_State := ''in-use'',
          Attachments := [\<lparr>att_Device = device, att_InstanceId = instance,
                           att_State = ''attached''\<rparr>]\<rparr>
      else v)"

definition sim_detach :: "string \<Rightarrow> volume \<Rightarrow> volume" where
  "sim_detach vid v =
     (if VolumeId v = vid then v\<lparr>vol_State := ''available'', Attachments := []\<rparr> else v)"

definition sim_tag :: "string \<Rightarrow> string \<Rightarrow> string \<Rightarrow> volume \<Rightarrow> volume" where
  "sim_tag vid k x v =
     (if VolumeId v = vid then v\<lparr>Tags := Tags v @ [\<lparr>Key = k, Value = x\<rparr>]\<rparr> else v)"

definition sim_command :: "string \<Rightarrow> string list \<Rightarrow> world \<Rightarrow> (string \<times> error option) \<times> world" where
  "sim_command name args w =
     (if name = ''mountpoint'' then
        (if last args \<in> set (w_mounts w) then (('''', None), w)
         else (('''', Some (ErrorString ''exit status 1'')), w))
      else if name = ''mount'' then (('''', None), w\<lparr>w_mounts := last args # w_mounts w\<rparr>)
      else if name = ''umount'' then
        (if last args \<in> set (w_mounts w)
         then (('''', None), w\<lparr>w_mounts := removeAll (last args) (w_mounts w)\<rparr>)
         else ((''umount: not mounted'', Some (ErrorString ''exit status 32'')), w))
      else (('''', None), w))"

definition sim :: "world env" where
  "sim =
     \<lparr>env_DescribeVolumes = (\<lambda>fname fvalues w. (Inr (filter (has_tag fname fvalues) (w_volumes w)), w)),
      env_CreateVolume = (\<lambda>az sz w.
         (Inr \<lparr>VolumeId = ''vol-1'', vol_State = ''available'', Attachments = [], Tags = []\<rparr>,
          w\<lparr>w_volumes := w_volumes w
                @ [\<lparr>VolumeId = ''vol-1'', vol_State = ''available'', Attachments = [], Tags = []\<rparr>]\<rparr>)),
      env_CreateTags = (\<lambda>vid k x w. w\<lparr>w_volumes := map (sim_tag vid k x) (w_volumes w)\<rparr>),
      env_AttachVolume = (\<lambda>device instance vid w.
         (None, w\<lparr>w_volumes := map (sim_attach device instance vid) (w_volumes w),
                   w_devices := device # w_devices w\<rparr>)),
      env_DetachVolume = (\<lambda>instance vid w.
         (None, w\<lparr>w_volumes := map (sim_detach vid) (w_volumes w)\<rparr>)),
      env_Lstat = (\<lambda>w path.
         if path \<in> set (w_devices w) then None else Some (ErrNotExist ''no such file or directory'')),
      env_Stat = (\<lambda>w path.
         if path \<in> set (w_dirs w) then Inr True
         else if path \<in> set (w_devices w) then Inr False
         else Inl (ErrNotExist ''no such file or directory'')),
      env_Mkdir = (\<lambda>path w. (None, w\<lparr>w_dirs := path # w_dirs w\<rparr>)),
      env_Remove = (\<lambda>path w. (None, w\<lparr>w_dirs := removeAll path (w_dirs w)\<rparr>)),
      env_Command = sim_command,
      env_Sleep = (\<lambda>seconds w. w)\<rparr>"

text \<open>The same host with a provider that refuses every detach request.\<close>

definition sim_no_detach :: "world env" where
  "sim_no_detach =
     sim\<lparr>env_DetachVolume := (\<lambda>instance vid w.
            (Some (AwsError ''IncorrectState'' ''volume is busy''), w))\<rparr>"

text \<open>The same host with an \<open>mkfs\<close> that fails.\<close>

definition sim_no_mkfs :: "world env" where
  "sim_no_mkfs =
     sim\<lparr>env_Command := (\<lambda>name args w.
            if name = ''mkfs'' then ((''mkfs: short write'', Some (ErrorString ''exit status 1'')), w)
            else sim_command name args w)\<rparr>"

definition drv :: ebsVolumeDriver where
  "drv = \<lparr>awsInstanceId = ''i-1'', awsRegion = ''eu-west-1'', awsAvailabilityZone = ''eu-west-1a''\<rparr>"

text \<open>A volume named \<open>vol1\<close>, not attached.\<close>

definition vol1 :: volume where
  "vol1 = \<lparr>VolumeId = ''vol-1'', vol_State = ''available'', Attachments = [],
           Tags = [\<lparr>Key = ''Name'', Value = ''vol1''\<rparr>]\<rparr>"

text \<open>The same volume attached to this instance as \<open>/dev/sdf\<close>.\<close>

definition vol1_attached :: volume where
  "vol1_attached =
     \<lparr>VolumeId = ''vol-1'', vol_State = ''in-use'',
      Attachments = [\<lparr>att_Device = ''/dev/sdf'', att_InstanceId = ''i-1'', att_State = ''attached''\<rparr>],
      Tags = [\<lparr>Key = ''Name'', Value = ''vol1''\<rparr>]\<rparr>"

text \<open>An empty host; a host with \<open>vol1\<close> mounted; a host that has lost the device node.\<close>

definition w_empty :: world where
  "w_empty = \<lparr>w_volumes = [], w_devices = [], w_dirs = [], w_mounts = []\<rparr>"

definition w_mounted :: world where
  "w_mounted =
     \<lparr>w_volumes = [vol1_attached], w_devices = [''/dev/xvdf''],
      w_dirs = [''/mnt/blocker/vol1''], w_mounts = [''/mnt/blocker/vol1'']\<rparr>"

definition w_unmounted :: world where
  "w_unmounted = \<lparr>w_volumes = [vol1], w_devices = [], w_dirs = [], w_mounts = []\<rparr>"

definition w_no_device :: world where
  "w_no_device =
     \<lparr>w_volumes = [vol1_attached], w_devices = [], w_dirs = [], w_mounts = []\<rparr>"

text \<open>
  A host on which the slots \<open>f\<close> and \<open>g\<close> are taken, one under each alias, and a
  host on which all eleven slots are taken.
\<close>

definition w_fg :: world where
  "w_fg = \<lparr>w_volumes = [vol1], w_devices = [''/dev/sdf'', ''/dev/xvdg''], w_dirs = [], w_mounts = []\<rparr>"

definition w_full :: world where
  "w_full =
     \<lparr>w_volumes = [vol1],
      w_devices = [''/dev/sdf'', ''/dev/xvdg'', ''/dev/sdh'', ''/dev/xvdi'', ''/dev/sdj'',
                   ''/dev/xvdk'', ''/dev/sdl'', ''/dev/xvdm'', ''/dev/sdn'', ''/dev/xvdo'',
                   ''/dev/sdp''],
      w_dirs = [], w_mounts = []\<rparr>"

section \<open>Paths\<close>

lemma strings_Index_bounds: "- 1 \<le> strings_Index p c \<and> strings_Index p c < int (length p)"
  by (induction p) (auto simp: Let_def)

lemma strings_Index_neg: "strings_Index p c < 0 \<Longrightarrow> c \<notin> set p"
  by (induction p) (auto simp: Let_def split: if_splits)

lemma strings_Index_take: "c \<notin> set (take (nat (strings_Index p c)) p)"
  by (induction p) (auto simp: Let_def nat_add_distrib)

lemma strings_Index_nth: "0 \<le> strings_Index p c \<Longrightarrow> p ! nat (strings_Index p c) = c"
  by (induction p) (auto simp: Let_def nat_add_distrib split: if_splits)

lemma parsePath_props:
  "CHR ''/'' \<notin> set (fst (parsePath p))
   \<and> (snd (parsePath p) = [] \<or> hd (snd (parsePath p)) = CHR ''/'')
   \<and> fst (parsePath p) @ snd (parsePath p) = p"
proof (cases "strings_Index p (CHR ''/'') < 0")
  case True
  then show ?thesis
    by (simp add: parsePath_def strings_Index_neg)
next
  case False
  let ?i = "nat (strings_Index p (CHR ''/''))"
  from False have "?i < length p"
    using strings_Index_bounds [of p "CHR ''/''"] by simp
  then have "hd (drop ?i p) = p ! ?i"
    by (simp add: hd_drop_conv_nth)
  with False show ?thesis
    by (simp add: parsePath_def Let_def strings_Index_take strings_Index_nth)
qed

lemma doMount_result:
  "fst (doMount env d name s) = (''/mnt/blocker/'' @ name, None)
   \<or> (\<exists>err. fst (doMount env d name s) = ('''', Some err))"
  by (simp add: doMount_def Let_def split: prod.split option.split sum.split)

lemma Mount_result:
  "fst (Mount env d p s) = (''/mnt/blocker/'' @ p, None)
   \<or> (\<exists>err. fst (Mount env d p s) = ('''', Some err))"
proof -
  obtain volume folder where vf: "parsePath p = (volume, folder)"
    by (cases "parsePath p")
  then have p: "volume @ folder = p"
    using parsePath_props [of p] by simp
  obtain m e s1 where dm: "doMount env d volume s = ((m, e), s1)"
    by (metis prod.exhaust)
  with doMount_result [of env d volume s]
  have "(m = ''/mnt/blocker/'' @ volume \<and> e = None) \<or> (\<exists>err. m = '''' \<and> e = Some err)"
    by simp
  then show ?thesis
    using p by (auto simp: Mount_def vf dm)
qed

lemma Path_checks:
  "Path env p s =
     (if os_Stat env (''/mnt/blocker/'' @ p) s = Inr True then (''/mnt/blocker/'' @ p, None)
      else ('''', Some (ErrorString ''Volume not mounted.'')))"
proof -
  obtain volume folder where vf: "parsePath p = (volume, folder)"
    by (cases "parsePath p")
  then have p: "volume @ folder = p"
    using parsePath_props [of p] by simp
  show ?thesis
    using p by (auto simp: Path_def vf Let_def split: sum.split)
qed

text \<open>
  Claim C10. For every string \<open>p\<close>, \<open>parsePath p\<close> is a pair \<open>(volume, folder)\<close> in which
  \<open>volume\<close> holds no \<open>/\<close>, \<open>folder\<close> is empty or starts with \<open>/\<close>, and
  \<open>volume\<close> followed by \<open>folder\<close> is \<open>p\<close> again. Hence \<open>Mount p\<close> returns either
  \<open>/mnt/blocker/\<close> followed by \<open>p\<close>, with no error, or the empty string with an
  error; and \<open>Path p\<close> succeeds exactly when \<open>os.Stat\<close> reports that very path
  to be a directory.
\<close>

theorem parsePath_splits_path:
  "(case parsePath p of
      (volume, folder) \<Rightarrow>
        CHR ''/'' \<notin> set volume \<and> (folder = [] \<or> hd folder = CHR ''/'') \<and> volume @ folder = p)
   \<and> (fst (Mount env d p s) = (''/mnt/blocker/'' @ p, None)
        \<or> (\<exists>err. fst (Mount env d p s) = ('''', Some err)))
   \<and> Path env p s' =
        (if os_Stat env (''/mnt/blocker/'' @ p) s' = Inr True then (''/mnt/blocker/'' @ p, None)
         else ('''', Some (ErrorString ''Volume not mounted.'')))"
  using parsePath_props [of p] Mount_result [of env d p s] Path_checks [of env p s']
  by (simp add: case_prod_beta)

section \<open>The State Poller\<close>

lemma ec2_DescribeVolumes_trace:
  "snd (snd (ec2_DescribeVolumes env fname fvalues s)) = snd s @ [EvDescribeVolumes fname fvalues]"
  by (simp add: ec2_DescribeVolumes_def split: prod.split)

lemma getEBSVolume_trace:
  "snd (snd (getEBSVolume env name s)) = snd s @ [EvDescribeVolumes ''tag:Name'' [name]]"
  using ec2_DescribeVolumes_trace [of env "''tag:Name''" "[name]" s]
  by (auto simp: getEBSVolume_def split: prod.split sum.split list.split)

lemma time_Sleep_trace: "snd (time_Sleep env n s) = snd s @ [EvSleep n]"
  by (simp add: time_Sleep_def split: prod.split)

lemma checks_append: "checks (xs @ ys) = checks xs @ checks ys"
  by (induction xs rule: checks.induct) simp_all

lemma poll_post_lookup:
  "0 < budget \<Longrightarrow>
   poll_post name check budget (Some err) [EvDescribeVolumes ''tag:Name'' [name]]"
  by (simp add: poll_post_def)

lemma poll_post_ok:
  "check v = None \<Longrightarrow> 0 < budget \<Longrightarrow>
   poll_post name check budget None [EvDescribeVolumes ''tag:Name'' [name], EvCheck v]"
  by (simp add: poll_post_def)

lemma poll_post_timeout:
  "check v = Some e \<Longrightarrow>
   poll_post name check 1 (Some e) [EvDescribeVolumes ''tag:Name'' [name], EvCheck v]"
  by (simp add: poll_post_def)

lemma poll_post_step:
  assumes "check v = Some e" and "poll_post name check budget r evs"
  shows "poll_post name check (Suc budget) r
           ([EvDescribeVolumes ''tag:Name'' [name], EvCheck v, EvSleep 5] @ evs)"
proof -
  from assms(2) have ne: "evs \<noteq> []"
    by (simp add: poll_post_def)
  then have b: "butlast ([EvDescribeVolumes ''tag:Name'' [name], EvCheck v, EvSleep 5] @ evs)
      = [EvDescribeVolumes ''tag:Name'' [name], EvCheck v, EvSleep 5] @ butlast evs"
    by (simp add: butlast_append)
  from ne have l: "last ([EvDescribeVolumes ''tag:Name'' [name], EvCheck v, EvSleep 5] @ evs)
      = last evs"
    by simp
  show ?thesis
    unfolding poll_post_def b l
    using assms ne by (auto simp: poll_post_def checks_append split: option.splits)
qed

lemma tries_next:
  fixes tries :: "64 word"
  assumes "unat tries < 12" and "tries + 1 \<noteq> 12"
  shows "unat (tries + 1) = Suc (unat tries) \<and> unat (tries + 1) < 12"
proof -
  have "unat tries + unat (1 :: 64 word) < 2 ^ LENGTH(64)"
    using assms(1) by simp
  then have a: "unat (tries + 1) = unat tries + unat (1 :: 64 word)"
    by (rule iffD1 [OF unat_add_lem])
  have "unat (tries + 1) \<noteq> unat (12 :: 64 word)"
    using assms(2) by (simp only: word_unat_eq_iff [symmetric] not_False_eq_True)
  then have "unat (tries + 1) \<noteq> 12"
    by simp
  with a assms(1) show ?thesis
    by simp
qed

lemma tries_last:
  fixes tries :: "64 word"
  assumes "tries + 1 = 12"
  shows "unat tries = 11"
proof -
  from assms have "tries + 1 - 1 = 12 - 1"
    by (simp only:)
  then have "tries = 11"
    by simp
  then show ?thesis
    by simp
qed


lemma waitUntilState_loop_post:
  "unat tries < 12 \<Longrightarrow>
   \<exists>evs. snd (snd (waitUntilState_loop env name check tries s)) = snd s @ evs
       \<and> poll_post name check (12 - unat tries) (fst (waitUntilState_loop env name check tries s)) evs"
proof (induction env name check tries s rule: waitUntilState_loop.induct)
  case (1 env name check tries s)
  let ?D = "EvDescribeVolumes ''tag:Name'' [name]"
  obtain r s1 where g: "getEBSVolume env name s = (r, s1)"
    by (metis prod.exhaust)
  then have t1: "snd s1 = snd s @ [?D]"
    using getEBSVolume_trace [of env name s] by simp
  show ?case
  proof (cases r)
    case (Inl err)
    have "waitUntilState_loop env name check tries s = (Some err, s1)"
      by (subst waitUntilState_loop.simps) (simp add: g Inl)
    moreover have "poll_post name check (12 - unat tries) (Some err) [?D]"
      using "1.prems" by (intro poll_post_lookup) simp
    ultimately show ?thesis
      using t1 by auto
  next
    case (Inr volume)
    let ?s2 = "(fst s1, snd s1 @ [EvCheck volume])"
    show ?thesis
    proof (cases "check volume")
      case None
      have "waitUntilState_loop env name check tries s = (None, ?s2)"
        by (subst waitUntilState_loop.simps) (simp add: g Inr None)
      moreover have "poll_post name check (12 - unat tries) None [?D, EvCheck volume]"
        using None "1.prems" by (intro poll_post_ok) simp_all
      ultimately show ?thesis
        using t1 by auto
    next
      case (Some err)
      show ?thesis
      proof (cases "tries + 1 = 12")
        case True
        have "waitUntilState_loop env name check tries s = (Some err, ?s2)"
          by (subst waitUntilState_loop.simps) (simp add: g Inr Some True)
        moreover have "12 - unat tries = 1"
          using tries_last [OF True] by simp
        then have "poll_post name check (12 - unat tries) (Some err) [?D, EvCheck volume]"
          using poll_post_timeout [of check volume err name] Some by simp
        ultimately show ?thesis
          using t1 by auto
      next
        case False
        let ?s3 = "time_Sleep env 5 ?s2"
        have eq: "waitUntilState_loop env name check tries s
            = waitUntilState_loop env name check (tries + 1) ?s3"
          by (subst waitUntilState_loop.simps) (simp add: g Inr Some False)
        have n: "unat (tries + 1) = Suc (unat tries)" "unat (tries + 1) < 12"
          using tries_next [OF "1.prems" False] by simp_all
        have "\<exists>evs. snd (snd (waitUntilState_loop env name check (tries + 1) ?s3)) = snd ?s3 @ evs
            \<and> poll_post name check (12 - unat (tries + 1))
                 (fst (waitUntilState_loop env name check (tries + 1) ?s3)) evs"
          using "1.IH" [OF g [symmetric] Inr Some False n(2)] .
        then obtain evs where
          tr: "snd (snd (waitUntilState_loop env name check tries s)) = snd ?s3 @ evs" and
          pp: "poll_post name check (12 - unat (tries + 1))
                 (fst (waitUntilState_loop env name check tries s)) evs"
          using eq by auto
        have b: "Suc (12 - unat (tries + 1)) = 12 - unat tries"
          using n by simp
        have "poll_post name check (Suc (12 - unat (tries + 1)))
                (fst (waitUntilState_loop env name check tries s))
                ([?D, EvCheck volume, EvSleep 5] @ evs)"
          using Some pp by (rule poll_post_step)
        then have "poll_post name check (12 - unat tries)
                (fst (waitUntilState_loop env name check tries s))
                ([?D, EvCheck volume, EvSleep 5] @ evs)"
          by (simp only: b)
        moreover have "snd (snd (waitUntilState_loop env name check tries s))
            = snd s @ [?D, EvCheck volume, EvSleep 5] @ evs"
          using tr t1 by (simp add: time_Sleep_trace)
        ultimately show ?thesis
          by blast
      qed
    qed
  qed
qed

lemma waitUntilState_post:
  "\<exists>evs. snd (snd (waitUntilState env name check s)) = snd s @ evs
       \<and> poll_post name check 12 (fst (waitUntilState env name check s)) evs"
  using waitUntilState_loop_post [of 0 env name check s]
  by (simp add: waitUntilState_def)

lemma failed_attempts_Cons:
  assumes "getEBSVolume env name s = (Inr v, s1)" and "check v = Some e"
    and "ss \<noteq> []" and "hd ss = time_Sleep env 5 (fst s1, snd s1 @ [EvCheck v])"
    and "failed_attempts env name check ss"
  shows "failed_attempts env name check (s # ss)"
proof -
  from assms(3) obtain s' rest where ss: "ss = s' # rest"
    by (cases ss) auto
  with assms show ?thesis
    by simp
qed


lemma attempts_single:
  assumes "0 < budget"
    and "case getEBSVolume env name s of
            (Inl err, s1) \<Rightarrow> r = (Some err, s1)
          | (Inr v, s1) \<Rightarrow>
              r = (check v, (fst s1, snd s1 @ [EvCheck v])) \<and> (check v = None \<or> 1 = budget)"
  shows "\<exists>ss. ss \<noteq> [] \<and> hd ss = s \<and> length ss \<le> budget
      \<and> failed_attempts env name check ss
      \<and> (case getEBSVolume env name (last ss) of
            (Inl err, s1) \<Rightarrow> r = (Some err, s1)
          | (Inr v, s1) \<Rightarrow>
              r = (check v, (fst s1, snd s1 @ [EvCheck v]))
              \<and> (check v = None \<or> length ss = budget))"
proof (rule exI [of _ "[s]"], intro conjI)
  show "[s] \<noteq> []" by simp
  show "hd [s] = s" by simp
  show "length [s] \<le> budget" using assms(1) by simp
  show "failed_attempts env name check [s]" by simp
  have l: "last [s] = s" and n: "length [s] = 1" by simp_all
  show "case getEBSVolume env name (last [s]) of
            (Inl err, s1) \<Rightarrow> r = (Some err, s1)
          | (Inr v, s1) \<Rightarrow>
              r = (check v, (fst s1, snd s1 @ [EvCheck v]))
              \<and> (check v = None \<or> length [s] = budget)"
    using assms(2) by (simp only: l n)
qed

lemma attempts_step:
  assumes g: "getEBSVolume env name s = (Inr v, s1)" and c: "check v = Some e"
    and ex: "\<exists>ss. ss \<noteq> [] \<and> hd ss = time_Sleep env 5 (fst s1, snd s1 @ [EvCheck v])
      \<and> length ss \<le> budget
      \<and> failed_attempts env name check ss
      \<and> (case getEBSVolume env name (last ss) of
            (Inl err, s1) \<Rightarrow> r = (Some err, s1)
          | (Inr v, s1) \<Rightarrow>
              r = (check v, (fst s1, snd s1 @ [EvCheck v]))
              \<and> (check v = None \<or> length ss = budget))"
  shows "\<exists>ss. ss \<noteq> [] \<and> hd ss = s \<and> length ss \<le> Suc budget
      \<and> failed_attempts env name check ss
      \<and> (case getEBSVolume env name (last ss) of
            (Inl err, s1) \<Rightarrow> r = (Some err, s1)
          | (Inr v, s1) \<Rightarrow>
              r = (check v, (fst s1, snd s1 @ [EvCheck v]))
              \<and> (check v = None \<or> length ss = Suc budget))"
proof -
  from ex obtain ss where ne: "ss \<noteq> []"
    and hd: "hd ss = time_Sleep env 5 (fst s1, snd s1 @ [EvCheck v])"
    and len: "length ss \<le> budget"
    and fa: "failed_attempts env name check ss"
    and fin: "case getEBSVolume env name (last ss) of
            (Inl err, s1) \<Rightarrow> r = (Some err, s1)
          | (Inr v, s1) \<Rightarrow>
              r = (check v, (fst s1, snd s1 @ [EvCheck v]))
              \<and> (check v = None \<or> length ss = budget)"
    by (elim exE conjE) (rule that, assumption+)
  have l: "last (s # ss) = last ss"
    using ne by simp
  have n: "length (s # ss) = Suc budget \<longleftrightarrow> length ss = budget"
    by simp
  show ?thesis
  proof (rule exI [of _ "s # ss"], intro conjI)
    show "s # ss \<noteq> []" by simp
    show "hd (s # ss) = s" by simp
    show "length (s # ss) \<le> Suc budget" using len by simp
    show "failed_attempts env name check (s # ss)"
      using g c ne hd fa by (rule failed_attempts_Cons)
    show "case getEBSVolume env name (last (s # ss)) of
            (Inl err, s1) \<Rightarrow> r = (Some err, s1)
          | (Inr v, s1) \<Rightarrow>
              r = (check v, (fst s1, snd s1 @ [EvCheck v]))
              \<and> (check v = None \<or> length (s # ss) = Suc budget)"
      using fin by (simp only: l n)
  qed
qed

lemma waitUntilState_loop_attempts:
  "unat tries < 12 \<Longrightarrow>
   \<exists>ss. ss \<noteq> [] \<and> hd ss = s \<and> length ss \<le> 12 - unat tries
      \<and> failed_attempts env name check ss
      \<and> (case getEBSVolume env name (last ss) of
            (Inl err, s1) \<Rightarrow> waitUntilState_loop env name check tries s = (Some err, s1)
          | (Inr v, s1) \<Rightarrow>
              waitUntilState_loop env name check tries s = (check v, (fst s1, snd s1 @ [EvCheck v]))
              \<and> (check v = None \<or> length ss = 12 - unat tries))"
proof (induction env name check tries s rule: waitUntilState_loop.induct)
  case (1 env name check tries s)
  obtain r s1 where g: "getEBSVolume env name s = (r, s1)"
    by (metis prod.exhaust)
  have pos: "0 < 12 - unat tries"
    using "1.prems" by simp
  show ?case
  proof (cases r)
    case (Inl err)
    have "waitUntilState_loop env name check tries s = (Some err, s1)"
      by (subst waitUntilState_loop.simps) (simp add: g Inl)
    then have "case getEBSVolume env name s of
            (Inl err, s1) \<Rightarrow> waitUntilState_loop env name check tries s = (Some err, s1)
          | (Inr v, s1) \<Rightarrow>
              waitUntilState_loop env name check tries s = (check v, (fst s1, snd s1 @ [EvCheck v]))
              \<and> (check v = None \<or> 1 = 12 - unat tries)"
      by (simp only: g Inl prod.case sum.case)
    with pos show ?thesis
      by (rule attempts_single)
  next
    case (Inr volume)
    let ?s2 = "(fst s1, snd s1 @ [EvCheck volume])"
    show ?thesis
    proof (cases "check volume")
      case None
      have "waitUntilState_loop env name check tries s = (None, ?s2)"
        by (subst waitUntilState_loop.simps) (simp add: g Inr None)
      then have "case getEBSVolume env name s of
            (Inl err, s1) \<Rightarrow> waitUntilState_loop env name check tries s = (Some err, s1)
          | (Inr v, s1) \<Rightarrow>
              waitUntilState_loop env name check tries s = (check v, (fst s1, snd s1 @ [EvCheck v]))
              \<and> (check v = None \<or> 1 = 12 - unat tries)"
        by (simp only: g Inr None prod.case sum.case simp_thms)
      with pos show ?thesis
        by (rule attempts_single)
    next
      case (Some err)
      show ?thesis
      proof (cases "tries + 1 = 12")
        case True
        have "waitUntilState_loop env name check tries s = (Some err, ?s2)"
          by (subst waitUntilState_loop.simps) (simp add: g Inr Some True)
        moreover have "1 = 12 - unat tries"
          using tries_last [OF True] by simp
        ultimately have "case getEBSVolume env name s of
            (Inl err, s1) \<Rightarrow> waitUntilState_loop env name check tries s = (Some err, s1)
          | (Inr v, s1) \<Rightarrow>
              waitUntilState_loop env name check tries s = (check v, (fst s1, snd s1 @ [EvCheck v]))
              \<and> (check v = None \<or> 1 = 12 - unat tries)"
          by (simp only: g Inr Some prod.case sum.case simp_thms)
        with pos show ?thesis
          by (rule attempts_single)
      next
        case False
        let ?s3 = "time_Sleep env 5 ?s2"
        have eq: "waitUntilState_loop env name check (tries + 1) ?s3
            = waitUntilState_loop env name check tries s"
          by (subst (2) waitUntilState_loop.simps) (simp add: g Inr Some False)
        have n: "unat (tries + 1) = Suc (unat tries)" "unat (tries + 1) < 12"
          using tries_next [OF "1.prems" False] by simp_all
        have b: "Suc (12 - unat (tries + 1)) = 12 - unat tries"
          using n by simp
        have g': "getEBSVolume env name s = (Inr volume, s1)"
          using g Inr by simp
        have "\<exists>ss. ss \<noteq> [] \<and> hd ss = s \<and> length ss \<le> Suc (12 - unat (tries + 1))
            \<and> failed_attempts env name check ss
            \<and> (case getEBSVolume env name (last ss) of
                  (Inl err, s1) \<Rightarrow> waitUntilState_loop env name check tries s = (Some err, s1)
                | (Inr v, s1) \<Rightarrow>
                    waitUntilState_loop env name check tries s
                      = (check v, (fst s1, snd s1 @ [EvCheck v]))
                    \<and> (check v = None \<or> length ss = Suc (12 - unat (tries + 1))))"
          using g' Some "1.IH" [OF g [symmetric] Inr Some False n(2), unfolded eq]
          by (rule attempts_step)
        then show ?thesis
          by (simp only: b)
      qed
    qed
  qed
qed

lemma waitUntilState_attempt_chain:
  "\<exists>ss. ss \<noteq> [] \<and> hd ss = s \<and> length ss \<le> 12
      \<and> failed_attempts env name check ss
      \<and> (case getEBSVolume env name (last ss) of
            (Inl err, s1) \<Rightarrow> waitUntilState env name check s = (Some err, s1)
          | (Inr v, s1) \<Rightarrow>
              waitUntilState env name check s = (check v, (fst s1, snd s1 @ [EvCheck v]))
              \<and> (check v = None \<or> length ss = 12))"
proof -
  have z: "12 - unat (0 :: 64 word) = 12" and lt: "unat (0 :: 64 word) < 12"
    by simp_all
  from waitUntilState_loop_attempts [OF lt, of s env name check] show ?thesis
    unfolding waitUntilState_def z .
qed

text \<open>
  Claim C5. One call of \<open>waitUntilState\<close> is a chain of at most 12 attempts, the first
  starting in the state of the call. Every attempt before the last looked the volume up,
  found the condition failing on it and slept. The last attempt decides the result: when
  its lookup fails, the call returns the lookup's error and the state the lookup left;
  otherwise it evaluates the condition on the volume it got and returns what the
  condition returned, its error included, and a failing condition ends the call only on
  attempt 12. So the call succeeds on the first attempt whose condition is satisfied,
  and after a failed 12th evaluation it returns that evaluation's own error.
  In the trace this reads: at most 12 evaluations; every evaluation before the last event
  failed; a call that succeeds ends with the evaluation that succeeded; a call that fails
  ends with the 12th evaluation, whose error it returns, or with a lookup after fewer
  than 12 evaluations.
\<close>

theorem waitUntilState_attempts:
  "(\<exists>ss. ss \<noteq> [] \<and> hd ss = s \<and> length ss \<le> 12
      \<and> failed_attempts env name check ss
      \<and> (case getEBSVolume env name (last ss) of
            (Inl err, s1) \<Rightarrow> waitUntilState env name check s = (Some err, s1)
          | (Inr v, s1) \<Rightarrow>
              waitUntilState env name check s = (check v, (fst s1, snd s1 @ [EvCheck v]))
              \<and> (check v = None \<or> length ss = 12)))
   \<and> (\<exists>evs. snd (snd (waitUntilState env name check s)) = snd s @ evs
       \<and> length (checks evs) \<le> 12
       \<and> list_all (\<lambda>u. check u \<noteq> None) (checks (butlast evs))
       \<and> (case fst (waitUntilState env name check s) of
             None \<Rightarrow> (\<exists>v. last evs = EvCheck v \<and> check v = None)
           | Some e \<Rightarrow>
               (\<exists>v. last evs = EvCheck v \<and> check v = Some e \<and> length (checks evs) = 12)
               \<or> (last evs = EvDescribeVolumes ''tag:Name'' [name]
                   \<and> length (checks evs) < 12)))"
proof (rule conjI)
  show "\<exists>ss. ss \<noteq> [] \<and> hd ss = s \<and> length ss \<le> 12
      \<and> failed_attempts env name check ss
      \<and> (case getEBSVolume env name (last ss) of
            (Inl err, s1) \<Rightarrow> waitUntilState env name check s = (Some err, s1)
          | (Inr v, s1) \<Rightarrow>
              waitUntilState env name check s = (check v, (fst s1, snd s1 @ [EvCheck v]))
              \<and> (check v = None \<or> length ss = 12))"
    by (rule waitUntilState_attempt_chain)
  show "\<exists>evs. snd (snd (waitUntilState env name check s)) = snd s @ evs
       \<and> length (checks evs) \<le> 12
       \<and> list_all (\<lambda>u. check u \<noteq> None) (checks (butlast evs))
       \<and> (case fst (waitUntilState env name check s) of
             None \<Rightarrow> (\<exists>v. last evs = EvCheck v \<and> check v = None)
           | Some e \<Rightarrow>
               (\<exists>v. last evs = EvCheck v \<and> check v = Some e \<and> length (checks evs) = 12)
               \<or> (last evs = EvDescribeVolumes ''tag:Name'' [name]
                   \<and> length (checks evs) < 12))"
    using waitUntilState_post [of env name check s]
    by (auto simp: poll_post_def)
qed

section \<open>Unmount, Remove and Mount\<close>

lemma ec2_DetachVolume_trace:
  "snd (snd (ec2_DetachVolume env instance vid s)) = snd s @ [EvDetachVolume instance vid]"
  by (simp add: ec2_DetachVolume_def split: prod.split)

lemma ec2_AttachVolume_trace:
  "snd (snd (ec2_AttachVolume env device instance vid s)) = snd s @ [EvAttachVolume device instance vid]"
  by (simp add: ec2_AttachVolume_def split: prod.split)

lemma exec_Command_trace:
  "snd (snd (exec_Command env name args s)) = snd s @ [EvCommand name args]"
  by (simp add: exec_Command_def split: prod.split)

lemma os_Remove_trace:
  "snd (snd (os_Remove env path s)) = snd s @ [EvRemove path]"
  by (simp add: os_Remove_def split: prod.split)

lemma os_MkdirAll_trace:
  "snd (snd (os_MkdirAll env path s)) = snd s @ [EvMkdirAll path]"
  by (simp add: os_MkdirAll_def split: prod.split sum.split)

lemma waitUntilState_trace:
  "\<exists>evs. snd (snd (waitUntilState env name check s)) = snd s @ evs \<and> list_all poll_event evs"
  using waitUntilState_post [of env name check s] by (auto simp: poll_post_def)

lemma detachVolume_starts_with_lookup:
  "\<exists>evs. snd (snd (detachVolume env d name s)) = snd s @ EvDescribeVolumes ''tag:Name'' [name] # evs"
proof -
  obtain r s1 where g: "getEBSVolume env name s = (r, s1)"
    by (metis prod.exhaust)
  then have t1: "snd s1 = snd s @ [EvDescribeVolumes ''tag:Name'' [name]]"
    using getEBSVolume_trace [of env name s] by simp
  show ?thesis
  proof (cases r)
    case (Inl err)
    with g t1 show ?thesis
      by (simp add: detachVolume_def)
  next
    case (Inr volume)
    obtain e s2 where dv: "ec2_DetachVolume env (awsInstanceId d) (VolumeId volume) s1 = (e, s2)"
      by (metis prod.exhaust)
    then have t2: "snd s2 = snd s1 @ [EvDetachVolume (awsInstanceId d) (VolumeId volume)]"
      using ec2_DetachVolume_trace [of env "awsInstanceId d" "VolumeId volume" s1] by simp
    show ?thesis
    proof (cases e)
      case (Some err)
      with g Inr dv t1 t2 show ?thesis
        by (simp add: detachVolume_def)
    next
      case None
      obtain evs where "snd (snd (waitUntilState env name check_dettached s2)) = snd s2 @ evs"
        using waitUntilState_trace [of env name check_dettached s2] by blast
      moreover have "snd (detachVolume env d name s) = snd (waitUntilState env name check_dettached s2)"
        using g Inr dv None
        by (simp add: detachVolume_def waitUntilDettached_def split: prod.split option.split)
      ultimately show ?thesis
        using t1 t2 by simp
    qed
  qed
qed

lemma Unmount_eq_doUnmount: "Unmount env d path s = doUnmount env d (fst (parsePath path)) s"
  by (simp add: Unmount_def split: prod.split option.split)

lemma Remove_eq_doUnmount: "Remove env d path s = doUnmount env d (fst (parsePath path)) s"
  by (simp add: Remove_def split: prod.split option.split)

lemma doUnmount_steps:
  "(case exec_Command env ''umount'' [''/mnt/blocker/'' @ name] s of
      ((out, Some err), s1) \<Rightarrow>
        doUnmount env d name s =
          (Some (ErrorString (''Unmounting '' @ ''/mnt/blocker/'' @ name @ '' failed: ''
                   @ Error err @ [CHR 0x0A] @ out)), s1)
        \<and> snd s1 = snd s @ [EvCommand ''umount'' [''/mnt/blocker/'' @ name]]
    | ((out, None), s1) \<Rightarrow>
        (case os_Remove env (''/mnt/blocker/'' @ name) s1 of
           (Some err, s2) \<Rightarrow>
             doUnmount env d name s = (Some err, s2)
             \<and> snd s2 = snd s @ [EvCommand ''umount'' [''/mnt/blocker/'' @ name],
                                 EvRemove (''/mnt/blocker/'' @ name)]
         | (None, s2) \<Rightarrow>
             doUnmount env d name s = detachVolume env d name s2
             \<and> (\<exists>evs. snd (snd (doUnmount env d name s)) =
                   snd s @ [EvCommand ''umount'' [''/mnt/blocker/'' @ name],
                            EvRemove (''/mnt/blocker/'' @ name),
                            EvDescribeVolumes ''tag:Name'' [name]] @ evs)))"
proof -
  obtain out e s1 where c: "exec_Command env ''umount'' [''/mnt/blocker/'' @ name] s = ((out, e), s1)"
    by (metis prod.exhaust)
  then have t1: "snd s1 = snd s @ [EvCommand ''umount'' [''/mnt/blocker/'' @ name]]"
    using exec_Command_trace [of env "''umount''" "[''/mnt/blocker/'' @ name]" s] by simp
  show ?thesis
  proof (cases e)
    case (Some err)
    with c t1 show ?thesis
      by (simp add: doUnmount_def)
  next
    case None
    obtain e2 s2 where r: "os_Remove env (''/mnt/blocker/'' @ name) s1 = (e2, s2)"
      by (metis prod.exhaust)
    then have t2: "snd s2 = snd s1 @ [EvRemove (''/mnt/blocker/'' @ name)]"
      using os_Remove_trace [of env "''/mnt/blocker/'' @ name" s1] by simp
    show ?thesis
    proof (cases e2)
      case (Some err)
      with c None r t1 t2 show ?thesis
        by (simp add: doUnmount_def)
    next
      case n2: None
      have eq: "doUnmount env d name s = detachVolume env d name s2"
        using c None r n2 by (simp add: doUnmount_def split: prod.split option.split)
      from detachVolume_starts_with_lookup [of env d name s2]
      obtain evs where
        "snd (snd (detachVolume env d name s2)) = snd s2 @ EvDescribeVolumes ''tag:Name'' [name] # evs"
        by blast
      with eq t1 t2 have "snd (snd (doUnmount env d name s)) =
          snd s @ [EvCommand ''umount'' [''/mnt/blocker/'' @ name],
                   EvRemove (''/mnt/blocker/'' @ name),
                   EvDescribeVolumes ''tag:Name'' [name]] @ evs"
        by simp
      with c None r n2 eq show ?thesis
        by (simp del: append.simps)
    qed
  qed
qed

text \<open>
  Claim C8. \<open>Unmount\<close> and \<open>Remove\<close> are the same operation. It first runs
  \<open>umount\<close> on \<open>/mnt/blocker/<volume>\<close>. When that command fails, the
  operation returns the command's failure and has issued nothing else: no removal of
  the directory and no call of the detach path. Otherwise it removes the directory, and
  only when that has succeeded does it run \<open>detachVolume\<close>, whose first call is the
  lookup of the volume, and return its result.
\<close>

theorem Unmount_Remove_steps:
  "Unmount env d path s = Remove env d path s
   \<and> (case exec_Command env ''umount'' [''/mnt/blocker/'' @ fst (parsePath path)] s of
         ((out, Some err), s1) \<Rightarrow>
           Unmount env d path s =
             (Some (ErrorString (''Unmounting '' @ ''/mnt/blocker/'' @ fst (parsePath path)
                      @ '' failed: '' @ Error err @ [CHR 0x0A] @ out)), s1)
           \<and> snd s1 = snd s @ [EvCommand ''umount'' [''/mnt/blocker/'' @ fst (parsePath path)]]
       | ((out, None), s1) \<Rightarrow>
           (case os_Remove env (''/mnt/blocker/'' @ fst (parsePath path)) s1 of
              (Some err, s2) \<Rightarrow>
                Unmount env d path s = (Some err, s2)
                \<and> snd s2 = snd s @ [EvCommand ''umount'' [''/mnt/blocker/'' @ fst (parsePath path)],
                                    EvRemove (''/mnt/blocker/'' @ fst (parsePath path))]
            | (None, s2) \<Rightarrow>
                Unmount env d path s = detachVolume env d (fst (parsePath path)) s2
                \<and> (\<exists>evs. snd (snd (Unmount env d path s)) =
                      snd s @ [EvCommand ''umount'' [''/mnt/blocker/'' @ fst (parsePath path)],
                               EvRemove (''/mnt/blocker/'' @ fst (parsePath path)),
                               EvDescribeVolumes ''tag:Name'' [fst (parsePath path)]] @ evs)))"
  using doUnmount_steps [where name = "fst (parsePath path)" and env = env and s = s and d = d]
  by (simp only: Unmount_eq_doUnmount Remove_eq_doUnmount simp_thms)

lemma doMount_mounted:
  assumes "os_Stat env (''/mnt/blocker/'' @ name) s = Inr True"
    and "snd (fst (env_Command env ''mountpoint'' [''-q'', ''/mnt/blocker/'' @ name] (fst s))) = None"
  shows "fst (doMount env d name s) = (''/mnt/blocker/'' @ name, None)"
    and "snd (doMount env d name s) =
           (snd (env_Command env ''mountpoint'' [''-q'', ''/mnt/blocker/'' @ name] (fst s)),
            snd s @ [EvMkdirAll (''/mnt/blocker/'' @ name),
                     EvCommand ''mountpoint'' [''-q'', ''/mnt/blocker/'' @ name]])"
proof -
  let ?mnt = "''/mnt/blocker/'' @ name"
  have mk: "os_MkdirAll env ?mnt s = (None, (fst s, snd s @ [EvMkdirAll ?mnt]))"
    using assms(1) by (cases s) (simp add: os_MkdirAll_def os_Stat_def)
  have st: "os_Stat env ?mnt (fst s, snd s @ [EvMkdirAll ?mnt]) = Inr True"
    using assms(1) by (simp add: os_Stat_def)
  obtain out w2 where c: "env_Command env ''mountpoint'' [''-q'', ?mnt] (fst s) = ((out, None), w2)"
    using assms(2) by (metis prod.collapse)
  then have ex: "exec_Command env ''mountpoint'' [''-q'', ?mnt] (fst s, snd s @ [EvMkdirAll ?mnt])
      = ((out, None), (w2, snd s @ [EvMkdirAll ?mnt, EvCommand ''mountpoint'' [''-q'', ?mnt]]))"
    by (simp add: exec_Command_def)
  have "doMount env d name s
      = ((?mnt, None), (w2, snd s @ [EvMkdirAll ?mnt, EvCommand ''mountpoint'' [''-q'', ?mnt]]))"
    by (simp only: doMount_def Let_def mk st ex prod.case option.case simp_thms if_False)
  with c show "fst (doMount env d name s) = (?mnt, None)"
    and "snd (doMount env d name s) =
           (snd (env_Command env ''mountpoint'' [''-q'', ?mnt] (fst s)),
            snd s @ [EvMkdirAll ?mnt, EvCommand ''mountpoint'' [''-q'', ?mnt]])"
    by simp_all
qed

text \<open>
  Claim C7. When the mount directory of the volume exists and is a directory, and
  \<open>mountpoint -q\<close> reports it to be a live mount point, \<open>Mount\<close> returns
  \<open>/mnt/blocker/\<close> followed by the path and no error. It has then issued two calls
  only, the \<open>MkdirAll\<close> (which finds the directory) and the \<open>mountpoint\<close> command:
  no lookup of the volume, no attach request, no wait. Every other call of \<open>Mount\<close>
  for the same path, from whatever state, failed or returned the same mountpoint.
\<close>

theorem Mount_already_mounted:
  assumes "os_Stat env (''/mnt/blocker/'' @ fst (parsePath path)) s = Inr True"
    and "snd (fst (env_Command env ''mountpoint''
                    [''-q'', ''/mnt/blocker/'' @ fst (parsePath path)] (fst s))) = None"
  shows "fst (Mount env d path s) = (''/mnt/blocker/'' @ path, None)
    \<and> snd (snd (Mount env d path s)) =
        snd s @ [EvMkdirAll (''/mnt/blocker/'' @ fst (parsePath path)),
                 EvCommand ''mountpoint'' [''-q'', ''/mnt/blocker/'' @ fst (parsePath path)]]
    \<and> (fst (Mount env d path s0) = fst (Mount env d path s)
        \<or> (\<exists>err. fst (Mount env d path s0) = ('''', Some err)))"
proof -
  obtain volume folder where vf: "parsePath path = (volume, folder)"
    by (cases "parsePath path")
  then have p: "volume @ folder = path"
    using parsePath_props [of path] by simp
  obtain m e s1 where dm: "doMount env d volume s = ((m, e), s1)"
    by (metis prod.exhaust)
  from doMount_mounted [where name = volume and env = env and s = s and d = d] assms vf dm
  have "m = ''/mnt/blocker/'' @ volume" and "e = None"
    and "snd s1 = snd s @ [EvMkdirAll (''/mnt/blocker/'' @ volume),
                           EvCommand ''mountpoint'' [''-q'', ''/mnt/blocker/'' @ volume]]"
    by simp_all
  then have a: "fst (Mount env d path s) = (''/mnt/blocker/'' @ path, None)"
    and b: "snd (snd (Mount env d path s)) =
        snd s @ [EvMkdirAll (''/mnt/blocker/'' @ volume),
                 EvCommand ''mountpoint'' [''-q'', ''/mnt/blocker/'' @ volume]]"
    using p by (simp_all add: Mount_def vf dm)
  from a b Mount_result [of env d path s0] show ?thesis
    by (simp add: vf)
qed

theorem Mount_already_mounted_witness:
  "os_Stat sim (''/mnt/blocker/'' @ fst (parsePath ''vol1/data'')) (w_mounted, []) = Inr True
   \<and> snd (fst (env_Command sim ''mountpoint''
                 [''-q'', ''/mnt/blocker/'' @ fst (parsePath ''vol1/data'')] w_mounted)) = None
   \<and> fst (Mount sim drv ''vol1/data'' (w_mounted, [])) = (''/mnt/blocker/vol1/data'', None)
   \<and> snd (snd (Mount sim drv ''vol1/data'' (w_mounted, []))) =
        [EvMkdirAll ''/mnt/blocker/vol1'', EvCommand ''mountpoint'' [''-q'', ''/mnt/blocker/vol1'']]"
proof -
  have pp: "parsePath ''vol1/data'' = (''vol1'', ''/data'')"
    by (simp add: parsePath_def)
  have h1: "os_Stat sim (''/mnt/blocker/'' @ fst (parsePath ''vol1/data'')) (w_mounted, []) = Inr True"
    by (simp add: pp os_Stat_def sim_def w_mounted_def)
  have h2: "snd (fst (env_Command sim ''mountpoint''
                 [''-q'', ''/mnt/blocker/'' @ fst (parsePath ''vol1/data'')]
                 (fst (w_mounted, ([] :: event list))))) = None"
    by (simp add: pp sim_def sim_command_def w_mounted_def)
  from Mount_already_mounted [OF h1 h2, of drv "(w_mounted, [])"] h1 h2 show ?thesis
    by (simp add: pp)
qed

section \<open>The Device Slot Allocator\<close>

lemma poll_event_not_attach: "list_all poll_event evs \<Longrightarrow> filter attach_request evs = []"
proof (induction evs)
  case Nil
  then show ?case by simp
next
  case (Cons e evs)
  then show ?case by (cases e) simp_all
qed

lemma waitUntilState_no_attach:
  "\<exists>evs. snd (snd (waitUntilState env name check s)) = snd s @ evs \<and> filter attach_request evs = []"
  using waitUntilState_trace [of env name check s] poll_event_not_attach by blast

lemma detachVolume_trace:
  "\<exists>evs. snd (snd (detachVolume env d name s)) = snd s @ evs"
  using detachVolume_starts_with_lookup [of env d name s] by auto

lemma scan_skips_occupied:
  "\<forall>x \<in> set pre. slot_occupied env s x \<Longrightarrow>
   attachVolume_scan env d name volume (pre @ rest) s = attachVolume_scan env d name volume rest s"
  by (induction pre) (auto simp: slot_occupied_def)

lemma scan_trace:
  "\<exists>evs. snd (snd (attachVolume_scan env d name volume cs s)) = snd s @ evs"
proof (induction cs arbitrary: s)
  case Nil
  then show ?case by simp
next
  case (Cons c cs)
  let ?dev = "''/dev/sd'' @ [c]"
  show ?case
  proof (cases "slot_occupied env s c")
    case True
    then have "attachVolume_scan env d name volume (c # cs) s = attachVolume_scan env d name volume cs s"
      by (auto simp: slot_occupied_def)
    with Cons.IH [of s] show ?thesis by simp
  next
    case False
    obtain e s1 where av: "ec2_AttachVolume env ?dev (awsInstanceId d) (VolumeId volume) s = (e, s1)"
      by (metis prod.exhaust)
    then have t1: "snd s1 = snd s @ [EvAttachVolume ?dev (awsInstanceId d) (VolumeId volume)]"
      using ec2_AttachVolume_trace [of env ?dev "awsInstanceId d" "VolumeId volume" s] by simp
    obtain e2 s2 where wa: "waitUntilAttached env name s1 = (e2, s2)"
      by (metis prod.exhaust)
    obtain evs2 where t2: "snd s2 = snd s1 @ evs2"
      using waitUntilState_trace [of env name check_attached s1] wa
      by (auto simp: waitUntilAttached_def)
    obtain evs3 where t3: "snd (snd (detachVolume env d name s2)) = snd s2 @ evs3"
      using detachVolume_trace [of env d name s2] by blast
    obtain evs4 where t4: "snd (snd (attachVolume_scan env d name volume cs s1)) = snd s1 @ evs4"
      using Cons.IH [of s1] by blast
    from False av wa t1 t2 t3 t4 show ?thesis
      by (auto simp: slot_occupied_def split: option.split prod.split)
  qed
qed

lemma scan_free_first:
  assumes "\<not> slot_occupied env s c"
  shows "\<exists>evs. snd (snd (attachVolume_scan env d name volume (c # cs) s)) =
           snd s @ EvAttachVolume (''/dev/sd'' @ [c]) (awsInstanceId d) (VolumeId volume) # evs"
proof -
  let ?dev = "''/dev/sd'' @ [c]"
  obtain e s1 where av: "ec2_AttachVolume env ?dev (awsInstanceId d) (VolumeId volume) s = (e, s1)"
    by (metis prod.exhaust)
  then have t1: "snd s1 = snd s @ [EvAttachVolume ?dev (awsInstanceId d) (VolumeId volume)]"
    using ec2_AttachVolume_trace [of env ?dev "awsInstanceId d" "VolumeId volume" s] by simp
  obtain e2 s2 where wa: "waitUntilAttached env name s1 = (e2, s2)"
    by (metis prod.exhaust)
  obtain evs2 where t2: "snd s2 = snd s1 @ evs2"
    using waitUntilState_trace [of env name check_attached s1] wa
    by (auto simp: waitUntilAttached_def)
  obtain evs3 where t3: "snd (snd (detachVolume env d name s2)) = snd s2 @ evs3"
    using detachVolume_trace [of env d name s2] by blast
  obtain evs4 where t4: "snd (snd (attachVolume_scan env d name volume cs s1)) = snd s1 @ evs4"
    using scan_trace [of env d name volume cs s1] by blast
  from assms av wa t1 t2 t3 t4 show ?thesis
    by (auto simp: slot_occupied_def split: option.split prod.split)
qed

lemma attachVolume_reaches_scan:
  assumes "getEBSVolume env name s = (Inr volume, s1)"
    and "attachVolume_attached env d name volume s1 = None"
    and "waitUntilAvailable env name s1 = (None, s2)"
  shows "attachVolume env d name s = attachVolume_scan env d name volume ''fghijklmnop'' s2"
    and "\<exists>evs. snd s2 = snd s @ evs \<and> filter attach_request evs = []"
proof -
  show "attachVolume env d name s = attachVolume_scan env d name volume ''fghijklmnop'' s2"
    by (simp only: attachVolume_def assms prod.case sum.case option.case)
  have t1: "snd s1 = snd s @ [EvDescribeVolumes ''tag:Name'' [name]]"
    using getEBSVolume_trace [of env name s] assms(1) by simp
  obtain evs where "snd s2 = snd s1 @ evs" and "filter attach_request evs = []"
    using waitUntilState_no_attach [of env name check_available s1] assms(3)
    by (auto simp: waitUntilAvailable_def)
  with t1 show "\<exists>evs. snd s2 = snd s @ evs \<and> filter attach_request evs = []"
    by simp
qed

text \<open>
  Claim C3. When the slot scan of \<open>attachVolume\<close> starts in a state in which each of the
  eleven slots \<open>f\<close> to \<open>p\<close> is occupied (one of its two paths exists), \<open>attachVolume\<close>
  returns the error "No devices available for attach: /dev/sd[f-p] taken." in that same
  state, and the calls it has issued since it was entered hold no attach request.
\<close>

theorem attachVolume_exhausted:
  assumes "getEBSVolume env name s = (Inr volume, s1)"
    and "attachVolume_attached env d name volume s1 = None"
    and "waitUntilAvailable env name s1 = (None, s2)"
    and "\<forall>c \<in> set ''fghijklmnop''. slot_occupied env s2 c"
  shows "attachVolume env d name s =
           (('''', Some (ErrorString ''No devices available for attach: /dev/sd[f-p] taken.'')), s2)
     \<and> (\<exists>evs. snd s2 = snd s @ evs \<and> filter attach_request evs = [])"
proof -
  have "attachVolume_scan env d name volume (''fghijklmnop'' @ []) s2
      = attachVolume_scan env d name volume [] s2"
    using assms(4) by (rule scan_skips_occupied)
  then have "attachVolume_scan env d name volume ''fghijklmnop'' s2 =
      (('''', Some (ErrorString ''No devices available for attach: /dev/sd[f-p] taken.'')), s2)"
    by simp
  with attachVolume_reaches_scan [OF assms(1-3)] show ?thesis
    by simp
qed

lemma sim_lookup_vol1:
  "w_volumes w = [vol1] \<Longrightarrow>
   getEBSVolume sim ''vol1'' (w, tr) = (Inr vol1, (w, tr @ [EvDescribeVolumes ''tag:Name'' [''vol1'']]))"
  by (simp add: getEBSVolume_def ec2_DescribeVolumes_def sim_def has_tag_def vol1_def)

lemma sim_available_vol1:
  "w_volumes w = [vol1] \<Longrightarrow>
   waitUntilAvailable sim ''vol1'' (w, tr) =
     (None, (w, tr @ [EvDescribeVolumes ''tag:Name'' [''vol1''], EvCheck vol1]))"
  unfolding waitUntilAvailable_def waitUntilState_def
  by (subst waitUntilState_loop.simps)
     (simp add: sim_lookup_vol1, simp add: check_available_def VolumeStateAvailable_def vol1_def)

lemma vol1_not_attached: "attachVolume_attached env d name vol1 s = None"
  by (simp add: attachVolume_attached_def vol1_def)

theorem attachVolume_exhausted_witness:
  "list_all
     (slot_occupied sim
        (w_full, [EvDescribeVolumes ''tag:Name'' [''vol1''],
                  EvDescribeVolumes ''tag:Name'' [''vol1''], EvCheck vol1]))
     ''fghijklmnop''
   \<and> attachVolume sim drv ''vol1'' (w_full, []) =
       (('''', Some (ErrorString ''No devices available for attach: /dev/sd[f-p] taken.'')),
        (w_full, [EvDescribeVolumes ''tag:Name'' [''vol1''],
                  EvDescribeVolumes ''tag:Name'' [''vol1''], EvCheck vol1]))"
proof -
  let ?D = "EvDescribeVolumes ''tag:Name'' [''vol1'']"
  have v: "w_volumes w_full = [vol1]"
    by (simp add: w_full_def)
  have h1: "getEBSVolume sim ''vol1'' (w_full, []) = (Inr vol1, (w_full, [?D]))"
    using sim_lookup_vol1 [OF v, of "[]"] by simp
  have h2: "attachVolume_attached sim drv ''vol1'' vol1 (w_full, [?D]) = None"
    by (rule vol1_not_attached)
  have h3: "waitUntilAvailable sim ''vol1'' (w_full, [?D]) = (None, (w_full, [?D, ?D, EvCheck vol1]))"
    using sim_available_vol1 [OF v, of "[?D]"] by simp
  have h4: "\<forall>c \<in> set ''fghijklmnop''. slot_occupied sim (w_full, [?D, ?D, EvCheck vol1]) c"
    by (simp add: slot_occupied_def os_Lstat_def sim_def w_full_def)
  from attachVolume_exhausted [OF h1 h2 h3 h4] h4 show ?thesis
    by (simp only: list_all_iff simp_thms)
qed

text \<open>
  Claim C2. The scan tries the letters \<open>f, g, ..., p\<close> in this order. When it starts in a
  state in which every slot before the letter \<open>c\<close> is occupied (one of \<open>/dev/sd<letter>\<close>
  and \<open>/dev/xvd<letter>\<close> exists) and neither path of \<open>c\<close> exists, the first attach
  request that \<open>attachVolume\<close> issues names \<open>/dev/sd<c>\<close>. With \<open>f\<close> and \<open>g\<close>
  occupied and \<open>h\<close> free, that is \<open>/dev/sdh\<close>.
\<close>

theorem attachVolume_first_free:
  assumes "getEBSVolume env name s = (Inr volume, s1)"
    and "attachVolume_attached env d name volume s1 = None"
    and "waitUntilAvailable env name s1 = (None, s2)"
    and "''fghijklmnop'' = pre @ c # post"
    and "\<forall>x \<in> set pre. slot_occupied env s2 x"
    and "\<not> slot_occupied env s2 c"
  shows "\<exists>evs rest. snd (snd (attachVolume env d name s)) =
           snd s @ evs @ EvAttachVolume (''/dev/sd'' @ [c]) (awsInstanceId d) (VolumeId volume) # rest
         \<and> filter attach_request evs = []"
proof -
  have "attachVolume env d name s = attachVolume_scan env d name volume (pre @ c # post) s2"
    using attachVolume_reaches_scan(1) [OF assms(1-3)] assms(4) by simp
  also have "\<dots> = attachVolume_scan env d name volume (c # post) s2"
    using assms(5) by (rule scan_skips_occupied)
  finally have eq: "attachVolume env d name s = attachVolume_scan env d name volume (c # post) s2" .
  obtain rest where
    "snd (snd (attachVolume_scan env d name volume (c # post) s2)) =
       snd s2 @ EvAttachVolume (''/dev/sd'' @ [c]) (awsInstanceId d) (VolumeId volume) # rest"
    using scan_free_first [OF assms(6)] by blast
  moreover obtain evs where "snd s2 = snd s @ evs" and "filter attach_request evs = []"
    using attachVolume_reaches_scan(2) [OF assms(1-3)] by blast
  ultimately show ?thesis
    using eq by auto
qed

theorem attachVolume_first_free_witness:
  "''fghijklmnop'' = ''fg'' @ CHR ''h'' # ''ijklmnop''
   \<and> list_all
        (slot_occupied sim
          (w_fg, [EvDescribeVolumes ''tag:Name'' [''vol1''],
                  EvDescribeVolumes ''tag:Name'' [''vol1''], EvCheck vol1]))
        ''fg''
   \<and> \<not> slot_occupied sim
          (w_fg, [EvDescribeVolumes ''tag:Name'' [''vol1''],
                  EvDescribeVolumes ''tag:Name'' [''vol1''], EvCheck vol1]) (CHR ''h'')
   \<and> (\<exists>evs rest. snd (snd (attachVolume sim drv ''vol1'' (w_fg, []))) =
           evs @ EvAttachVolume ''/dev/sdh'' ''i-1'' ''vol-1'' # rest
         \<and> filter attach_request evs = [])"
proof -
  let ?D = "EvDescribeVolumes ''tag:Name'' [''vol1'']"
  have v: "w_volumes w_fg = [vol1]"
    by (simp add: w_fg_def)
  have h1: "getEBSVolume sim ''vol1'' (w_fg, []) = (Inr vol1, (w_fg, [?D]))"
    using sim_lookup_vol1 [OF v, of "[]"] by simp
  have h2: "attachVolume_attached sim drv ''vol1'' vol1 (w_fg, [?D]) = None"
    by (rule vol1_not_attached)
  have h3: "waitUntilAvailable sim ''vol1'' (w_fg, [?D]) = (None, (w_fg, [?D, ?D, EvCheck vol1]))"
    using sim_available_vol1 [OF v, of "[?D]"] by simp
  have h4: "''fghijklmnop'' = ''fg'' @ CHR ''h'' # ''ijklmnop''"
    by simp
  have h5: "\<forall>x \<in> set ''fg''. slot_occupied sim (w_fg, [?D, ?D, EvCheck vol1]) x"
    by (simp add: slot_occupied_def os_Lstat_def sim_def w_fg_def)
  have h6: "\<not> slot_occupied sim (w_fg, [?D, ?D, EvCheck vol1]) (CHR ''h'')"
    by (simp add: slot_occupied_def os_Lstat_def sim_def w_fg_def)
  have l5: "list_all (slot_occupied sim (w_fg, [?D, ?D, EvCheck vol1])) ''fg''"
    using h5 by (simp only: list_all_iff)
  from attachVolume_first_free [OF h1 h2 h3 h4 h5 h6] l5 h6 show ?thesis
    by (simp add: drv_def vol1_def)
qed

lemma sim_lookup_vol1_attached:
  "w_volumes w = [vol1_attached] \<Longrightarrow>
   getEBSVolume sim ''vol1'' (w, tr) =
     (Inr vol1_attached, (w, tr @ [EvDescribeVolumes ''tag:Name'' [''vol1'']]))"
  by (simp add: getEBSVolume_def ec2_DescribeVolumes_def sim_def has_tag_def vol1_attached_def)

lemma vol1_attached_busy:
  "check_available vol1_attached =
     Some (ErrorString ''Volume state transition failed: seeking available, current is in-use'')"
  by (simp add: check_available_def VolumeStateAvailable_def vol1_attached_def)

lemma sim_Sleep: "time_Sleep sim n (w, tr) = (w, tr @ [EvSleep n])"
  by (simp add: time_Sleep_def sim_def)

lemma sim_busy_run:
  "fst (waitUntilAvailable sim ''vol1'' (w_no_device, tr)) =
     Some (ErrorString ''Volume state transition failed: seeking available, current is in-use'')
   \<and> EvSleep 5 \<in> set (snd (snd (waitUntilAvailable sim ''vol1'' (w_no_device, tr))))"
proof -
  have v: "w_volumes w_no_device = [vol1_attached]"
    by (simp add: w_no_device_def)
  show ?thesis
    unfolding waitUntilAvailable_def waitUntilState_def
    by (simp add: waitUntilState_loop.simps sim_lookup_vol1_attached [OF v] vol1_attached_busy sim_Sleep)
qed

text \<open>
  Claim C4, as amended. Take a volume with exactly one attachment, owned by this instance
  and in state \<open>attached\<close>, whose device name holds a match of \<open>/dev/(xv|s)d([f-p])\<close>
  with letter \<open>l\<close>, and let one of \<open>/dev/sd<l>\<close> and \<open>/dev/xvd<l>\<close> exist. Then
  \<open>attachVolume\<close> returns the path that exists, \<open>/dev/sd<l>\<close> first, with no error;
  the one call it has issued is the lookup of the volume: no attach request and no wait.
\<close>

theorem attachVolume_already_attached:
  assumes "getEBSVolume env name s = (Inr volume, s1)"
    and "Attachments volume = [a]"
    and "att_State a = VolumeAttachmentStateAttached"
    and "att_InstanceId a = awsInstanceId d"
    and "dev_FindStringSubmatch (att_Device a) = [m, g, l]"
    and "os_Lstat env (''/dev/sd'' @ l) s1 = None \<or> os_Lstat env (''/dev/xvd'' @ l) s1 = None"
  shows "attachVolume env d name s =
           ((if os_Lstat env (''/dev/sd'' @ l) s1 = None then ''/dev/sd'' @ l else ''/dev/xvd'' @ l,
             None), s1)
     \<and> snd s1 = snd s @ [EvDescribeVolumes ''tag:Name'' [name]]"
proof -
  have "attachVolume_attached env d name volume s1 =
      Some (if os_Lstat env (''/dev/sd'' @ l) s1 = None then ''/dev/sd'' @ l else ''/dev/xvd'' @ l,
            None)"
    using assms(2-6) by (auto simp: attachVolume_attached_def Let_def)
  then have "attachVolume env d name s =
      ((if os_Lstat env (''/dev/sd'' @ l) s1 = None then ''/dev/sd'' @ l else ''/dev/xvd'' @ l,
        None), s1)"
    by (simp only: attachVolume_def assms(1) prod.case sum.case option.case)
  moreover have "snd s1 = snd s @ [EvDescribeVolumes ''tag:Name'' [name]]"
    using getEBSVolume_trace [of env name s] assms(1) by simp
  ultimately show ?thesis
    by simp
qed

theorem attachVolume_already_attached_witness:
  "Attachments vol1_attached =
     [\<lparr>att_Device = ''/dev/sdf'', att_InstanceId = ''i-1'', att_State = ''attached''\<rparr>]
   \<and> dev_FindStringSubmatch ''/dev/sdf'' = [''/dev/sdf'', ''s'', ''f'']
   \<and> os_Lstat sim ''/dev/sdf'' (w_mounted, [EvDescribeVolumes ''tag:Name'' [''vol1'']])
        = Some (ErrNotExist ''no such file or directory'')
   \<and> os_Lstat sim ''/dev/xvdf'' (w_mounted, [EvDescribeVolumes ''tag:Name'' [''vol1'']]) = None
   \<and> attachVolume sim drv ''vol1'' (w_mounted, []) =
        ((''/dev/xvdf'', None), (w_mounted, [EvDescribeVolumes ''tag:Name'' [''vol1'']]))"
proof -
  let ?a = "\<lparr>att_Device = ''/dev/sdf'', att_InstanceId = ''i-1'', att_State = ''attached''\<rparr>"
  let ?s1 = "(w_mounted, [EvDescribeVolumes ''tag:Name'' [''vol1'']])"
  have v: "w_volumes w_mounted = [vol1_attached]"
    by (simp add: w_mounted_def)
  have h1: "getEBSVolume sim ''vol1'' (w_mounted, []) = (Inr vol1_attached, ?s1)"
    using sim_lookup_vol1_attached [OF v, of "[]"] by simp
  have h2: "Attachments vol1_attached = [?a]"
    by (simp add: vol1_attached_def)
  have h3: "att_State ?a = VolumeAttachmentStateAttached"
    by (simp add: VolumeAttachmentStateAttached_def)
  have h4: "att_InstanceId ?a = awsInstanceId drv"
    by (simp add: drv_def)
  have h5: "dev_FindStringSubmatch (att_Device ?a) = [''/dev/sdf'', ''s'', ''f'']"
    by (simp add: dev_match_def)
  have l1: "os_Lstat sim ''/dev/sdf'' ?s1 = Some (ErrNotExist ''no such file or directory'')"
    by (simp add: os_Lstat_def sim_def w_mounted_def)
  have l2: "os_Lstat sim ''/dev/xvdf'' ?s1 = None"
    by (simp add: os_Lstat_def sim_def w_mounted_def)
  have h6: "os_Lstat sim (''/dev/sd'' @ ''f'') ?s1 = None \<or> os_Lstat sim (''/dev/xvd'' @ ''f'') ?s1 = None"
    using l2 by simp
  from attachVolume_already_attached [OF h1 h2 h3 h4 h5 h6] h2 h5 l1 l2 show ?thesis
    by simp
qed

text \<open>
  Claim C4 as stated fails. On a host where \<open>vol1\<close> has exactly one attachment, owned by
  this instance and in state \<open>attached\<close>, but neither \<open>/dev/sdf\<close> nor \<open>/dev/xvdf\<close>
  exists, \<open>attachVolume\<close> does not return at once: control leaves the block, the poller
  waits for the volume to become available, sleeping between its attempts, and the call
  ends with the poller's error instead of a device path.
\<close>

theorem attachVolume_attached_device_missing:
  "Attachments vol1_attached =
     [\<lparr>att_Device = ''/dev/sdf'', att_InstanceId = awsInstanceId drv,
       att_State = VolumeAttachmentStateAttached\<rparr>]
   \<and> fst (getEBSVolume sim ''vol1'' (w_no_device, [])) = Inr vol1_attached
   \<and> fst (attachVolume sim drv ''vol1'' (w_no_device, [])) =
        ('''', Some (ErrorString
                ''Volume state transition failed: seeking available, current is in-use''))
   \<and> EvSleep 5 \<in> set (snd (snd (attachVolume sim drv ''vol1'' (w_no_device, []))))"
proof -
  let ?s1 = "(w_no_device, [EvDescribeVolumes ''tag:Name'' [''vol1'']])"
  have v: "w_volumes w_no_device = [vol1_attached]"
    by (simp add: w_no_device_def)
  have h1: "getEBSVolume sim ''vol1'' (w_no_device, []) = (Inr vol1_attached, ?s1)"
    using sim_lookup_vol1_attached [OF v, of "[]"] by simp
  have h2: "Attachments vol1_attached =
     [\<lparr>att_Device = ''/dev/sdf'', att_InstanceId = awsInstanceId drv,
       att_State = VolumeAttachmentStateAttached\<rparr>]"
    by (simp add: vol1_attached_def drv_def VolumeAttachmentStateAttached_def)
  have h3: "attachVolume_attached sim drv ''vol1'' vol1_attached ?s1 = None"
    by (simp add: attachVolume_attached_def vol1_attached_def drv_def
          VolumeAttachmentStateAttached_def dev_match_def os_Lstat_def sim_def w_no_device_def)
  obtain s2 where w: "waitUntilAvailable sim ''vol1'' ?s1 =
      (Some (ErrorString ''Volume state transition failed: seeking available, current is in-use''), s2)"
    and sl: "EvSleep 5 \<in> set (snd s2)"
    using sim_busy_run [of "[EvDescribeVolumes ''tag:Name'' [''vol1'']]"]
    by (metis prod.collapse)
  have "attachVolume sim drv ''vol1'' (w_no_device, []) =
      (('''', Some (ErrorString
                ''Volume state transition failed: seeking available, current is in-use'')), s2)"
    by (simp only: attachVolume_def h1 h3 w prod.case sum.case option.case)
  with h1 h2 sl show ?thesis
    by simp
qed

section \<open>Create\<close>

text \<open>The definitions needed to run the driver on the simulated host.\<close>

lemmas sim_run =
  Create_def attachVolume_def attachVolume_attached_def detachVolume_def
  waitUntilAvailable_def waitUntilAttached_def waitUntilDettached_def waitUntilState_def
  waitUntilState_loop.simps getEBSVolume_def
  ec2_DescribeVolumes_def ec2_CreateVolume_def ec2_CreateTags_def ec2_AttachVolume_def
  ec2_DetachVolume_def os_Lstat_def exec_Command_def time_Sleep_def
  check_available_def check_attached_def check_dettached_def
  VolumeStateAvailable_def VolumeAttachmentStateAttached_def
  sim_def sim_no_detach_def sim_no_mkfs_def sim_command_def sim_attach_def sim_detach_def sim_tag_def has_tag_def
  drv_def w_empty_def map_index_def ParseInt_def ParseUint_def Let_def

lemma detachVolume_ok_last_check:
  assumes "fst (detachVolume env d name s) = None"
  shows "\<exists>evs v. snd (snd (detachVolume env d name s)) = evs @ [EvCheck v] \<and> Attachments v = []"
proof -
  obtain r s1 where g: "getEBSVolume env name s = (r, s1)"
    by (metis prod.exhaust)
  show ?thesis
  proof (cases r)
    case (Inl err)
    with g assms show ?thesis
      by (simp add: detachVolume_def)
  next
    case (Inr volume)
    obtain e s2 where dv: "ec2_DetachVolume env (awsInstanceId d) (VolumeId volume) s1 = (e, s2)"
      by (metis prod.exhaust)
    show ?thesis
    proof (cases e)
      case (Some err)
      with g Inr dv assms show ?thesis
        by (simp add: detachVolume_def)
    next
      case None
      have eq: "detachVolume env d name s = waitUntilState env name check_dettached s2"
        using g Inr dv None
        by (simp add: detachVolume_def waitUntilDettached_def split: prod.split option.split)
      obtain evs where tr: "snd (snd (waitUntilState env name check_dettached s2)) = snd s2 @ evs"
        and pp: "poll_post name check_dettached 12 (fst (waitUntilState env name check_dettached s2)) evs"
        using waitUntilState_post [of env name check_dettached s2] by blast
      from pp assms eq obtain v where ne: "evs \<noteq> []" and l: "last evs = EvCheck v"
        and c: "check_dettached v = None"
        by (auto simp: poll_post_def)
      from c have "Attachments v = []"
        by (simp add: check_dettached_def split: if_splits)
      moreover from ne l have "evs = butlast evs @ [EvCheck v]"
        by (metis append_butlast_last_id)
      then have "snd (snd (detachVolume env d name s)) = (snd s2 @ butlast evs) @ [EvCheck v]"
        using tr eq by simp
      ultimately show ?thesis
        by blast
    qed
  qed
qed

text \<open>
  Claim C6, as amended. Once the attach inside \<open>Create\<close> has succeeded, \<open>Create\<close> runs
  \<open>mkfs\<close> and then \<open>detachVolume\<close>, whether \<open>mkfs\<close> failed or not, and ends in the state
  \<open>detachVolume\<close> leaves. The result of \<open>detachVolume\<close> is dropped: \<open>Create\<close> returns
  the formatting error when \<open>mkfs\<close> failed and no error when it succeeded. When that
  \<open>detachVolume\<close> succeeds, the last thing it did was to see the volume without
  attachments. Nothing is promised about the attachment when it fails.
\<close>

theorem Create_detach_best_effort:
  assumes "ec2_CreateVolume env (awsAvailabilityZone d)
             (fst (ParseInt (map_index options ''size''))) s = (Inr volume, s1)"
    and "attachVolume env d name (ec2_CreateTags env (VolumeId volume) ''Name'' name s1)
           = ((device, None), s3)"
    and "exec_Command env ''mkfs'' [''-t'', ''ext4'', device] s3 = ((out, ferr), s4)"
  shows "snd (Create env d name options s) = snd (detachVolume env d name s4)
     \<and> fst (Create env d name options s) =
         (case ferr of
            None \<Rightarrow> None
          | Some err \<Rightarrow>
              Some (ErrorString (''Formatting device '' @ device @ '' failed: ''
                      @ Error err @ [CHR 0x0A] @ out)))
     \<and> (fst (detachVolume env d name s4) = None \<longrightarrow>
          (\<exists>evs v. snd (snd (Create env d name options s)) = evs @ [EvCheck v]
                   \<and> Attachments v = []))"
proof -
  obtain sz perr where p: "ParseInt (map_index options ''size'') = (sz, perr)"
    by (metis prod.exhaust)
  obtain derr s5 where dv: "detachVolume env d name s4 = (derr, s5)"
    by (metis prod.exhaust)
  have a: "snd (Create env d name options s) = s5"
    and b: "fst (Create env d name options s) =
         (case ferr of
            None \<Rightarrow> None
          | Some err \<Rightarrow>
              Some (ErrorString (''Formatting device '' @ device @ '' failed: ''
                      @ Error err @ [CHR 0x0A] @ out)))"
    using assms p dv by (cases ferr; simp add: Create_def Let_def)+
  have "fst (detachVolume env d name s4) = None \<longrightarrow>
          (\<exists>evs v. snd s5 = evs @ [EvCheck v] \<and> Attachments v = [])"
    using detachVolume_ok_last_check [of env d name s4] dv by simp
  with a b dv show ?thesis
    by simp
qed

theorem Create_detach_best_effort_witness:
  "fst (attachVolume sim drv ''vol1''
          (ec2_CreateTags sim ''vol-1'' ''Name'' ''vol1''
             (snd (ec2_CreateVolume sim ''eu-west-1a'' 0 (w_empty, []))))) = (''/dev/sdf'', None)
   \<and> fst (Create sim drv ''vol1'' Map.empty (w_empty, [])) = None
   \<and> (\<exists>evs v. snd (snd (Create sim drv ''vol1'' Map.empty (w_empty, []))) = evs @ [EvCheck v]
                \<and> Attachments v = [])
   \<and> fst (Create sim_no_mkfs drv ''vol1'' Map.empty (w_empty, [])) =
        Some (ErrorString (''Formatting device /dev/sdf failed: exit status 1''
                @ [CHR 0x0A] @ ''mkfs: short write''))"
proof -
  let ?v0 = "\<lparr>VolumeId = ''vol-1'', vol_State = ''available'', Attachments = [], Tags = []\<rparr>"
  have z: "fst (ParseInt (map_index Map.empty ''size'')) = 0"
    by (simp add: map_index_def ParseInt_def)
  have az: "awsAvailabilityZone drv = ''eu-west-1a''"
    by (simp add: drv_def)
  have vid: "VolumeId ?v0 = ''vol-1''"
    by simp

  let ?c = "ec2_CreateVolume sim ''eu-west-1a'' 0 (w_empty, [])"
  let ?a = "attachVolume sim drv ''vol1'' (ec2_CreateTags sim ''vol-1'' ''Name'' ''vol1'' (snd ?c))"
  let ?m = "exec_Command sim ''mkfs'' [''-t'', ''ext4'', ''/dev/sdf''] (snd ?a)"
  have "fst ?c = Inr ?v0"
    by (simp add: ec2_CreateVolume_def sim_def)
  then have h1: "ec2_CreateVolume sim (awsAvailabilityZone drv)
      (fst (ParseInt (map_index Map.empty ''size''))) (w_empty, []) = (Inr ?v0, snd ?c)"
    by (simp only: z az) (metis prod.collapse)
  have fa: "fst ?a = (''/dev/sdf'', None)"
    by (simp add: sim_run)
  then have h2: "attachVolume sim drv ''vol1''
      (ec2_CreateTags sim (VolumeId ?v0) ''Name'' ''vol1'' (snd ?c)) = ((''/dev/sdf'', None), snd ?a)"
    by (simp only: vid) (metis prod.collapse)
  have "fst ?m = ('''', None)"
    by (simp add: exec_Command_def sim_def sim_command_def split: prod.split)
  then have h3: "?m = (('''', None), snd ?m)"
    by (metis prod.collapse)
  have d: "fst (detachVolume sim drv ''vol1'' (snd ?m)) = None"
    by (simp add: sim_run)

  let ?c' = "ec2_CreateVolume sim_no_mkfs ''eu-west-1a'' 0 (w_empty, [])"
  let ?a' = "attachVolume sim_no_mkfs drv ''vol1''
               (ec2_CreateTags sim_no_mkfs ''vol-1'' ''Name'' ''vol1'' (snd ?c'))"
  let ?m' = "exec_Command sim_no_mkfs ''mkfs'' [''-t'', ''ext4'', ''/dev/sdf''] (snd ?a')"
  have "fst ?c' = Inr ?v0"
    by (simp add: ec2_CreateVolume_def sim_def sim_no_mkfs_def)
  then have k1: "ec2_CreateVolume sim_no_mkfs (awsAvailabilityZone drv)
      (fst (ParseInt (map_index Map.empty ''size''))) (w_empty, []) = (Inr ?v0, snd ?c')"
    by (simp only: z az) (metis prod.collapse)
  have "fst ?a' = (''/dev/sdf'', None)"
    by (simp add: sim_run)
  then have k2: "attachVolume sim_no_mkfs drv ''vol1''
      (ec2_CreateTags sim_no_mkfs (VolumeId ?v0) ''Name'' ''vol1'' (snd ?c')) = ((''/dev/sdf'', None), snd ?a')"
    by (simp only: vid) (metis prod.collapse)
  have "fst ?m' = (''mkfs: short write'', Some (ErrorString ''exit status 1''))"
    by (simp add: exec_Command_def sim_def sim_no_mkfs_def split: prod.split)
  then have k3: "?m' = ((''mkfs: short write'', Some (ErrorString ''exit status 1'')), snd ?m')"
    by (metis prod.collapse)

  note r = Create_detach_best_effort [OF h1 h2 h3]
  from r have n: "fst (Create sim drv ''vol1'' Map.empty (w_empty, [])) = None"
    by simp
  from r d have e: "\<exists>evs v. snd (snd (Create sim drv ''vol1'' Map.empty (w_empty, []))) = evs @ [EvCheck v]
                \<and> Attachments v = []"
    by blast
  from Create_detach_best_effort [OF k1 k2 k3]
  have f: "fst (Create sim_no_mkfs drv ''vol1'' Map.empty (w_empty, [])) =
        Some (ErrorString (''Formatting device /dev/sdf failed: exit status 1''
                @ [CHR 0x0A] @ ''mkfs: short write''))"
    by simp
  from fa n e f show ?thesis
    by blast
qed

text \<open>
  Claim C6 as stated fails. With a provider that refuses the detach request, \<open>Create\<close>
  formats the volume, calls \<open>detachVolume\<close>, drops its error and reports success, while
  the volume is still attached as \<open>/dev/sdf\<close> and still \<open>in-use\<close>.
\<close>

theorem Create_leaves_attachment:
  "fst (Create sim_no_detach drv ''vol1'' Map.empty (w_empty, [])) = None
   \<and> map Attachments (w_volumes (fst (snd (Create sim_no_detach drv ''vol1'' Map.empty (w_empty, [])))))
       = [[\<lparr>att_Device = ''/dev/sdf'', att_InstanceId = ''i-1'', att_State = ''attached''\<rparr>]]
   \<and> map vol_State (w_volumes (fst (snd (Create sim_no_detach drv ''vol1'' Map.empty (w_empty, [])))))
       = [''in-use'']"
  by (simp add: sim_run)

lemma ParseUint_loop_syntax:
  "snd (ParseUint_loop cs n) = Some ErrSyntax \<Longrightarrow> fst (ParseUint_loop cs n) = 0"
  by (induction cs arbitrary: n) (auto split: if_splits)



lemma ParseInt_missing: "ParseInt (map_index Map.empty ''size'') = (0, Some ErrSyntax)"
  by (simp add: map_index_def ParseInt_def)








section \<open>Get and List\<close>

text \<open>
  Claim C1 fails on the code, by an inverted test. \<open>Get\<close> and \<open>List\<close> store the
  \<open>Mountpoint\<close> key when \<open>Path\<close> returned an error (\<open>err != nil\<close>), with the empty
  string \<open>Path\<close> returns beside an error. On the host with \<open>vol1\<close> mounted at
  \<open>/mnt/blocker/vol1\<close> the maps that \<open>Get\<close> and \<open>List\<close> return hold no
  \<open>Mountpoint\<close> key; on the host where it is not mounted they hold the key with the
  value \<open>""\<close>.
\<close>

theorem Get_List_Mountpoint_inverted:
  "Path sim ''vol1'' (w_mounted, [EvDescribeVolumes ''tag:Name'' [''vol1'']])
      = (''/mnt/blocker/vol1'', None)
   \<and> (case fst (Get sim ''vol1'' (w_mounted, [])) of
         Inl err \<Rightarrow> False
       | Inr m \<Rightarrow> m ''Name'' = Some ''vol1'' \<and> m ''AwsVolumeId'' = Some ''vol-1''
                   \<and> m ''Mountpoint'' = None)
   \<and> (case fst (List sim (w_mounted, [])) of
         Inl err \<Rightarrow> False
       | Inr ms \<Rightarrow> map (\<lambda>m. m ''Mountpoint'') ms = [None])
   \<and> fst (Path sim ''vol1'' (w_unmounted, [EvDescribeVolumes ''tag:Name'' [''vol1'']])) = ''''
   \<and> (case fst (Get sim ''vol1'' (w_unmounted, [])) of
         Inl err \<Rightarrow> False
       | Inr m \<Rightarrow> m ''Mountpoint'' = Some '''')
   \<and> (case fst (List sim (w_unmounted, [])) of
         Inl err \<Rightarrow> False
       | Inr ms \<Rightarrow> map (\<lambda>m. m ''Mountpoint'') ms = [Some ''''])"
  by (simp add: Get_def List_def Path_def parsePath_def os_Stat_def getEBSVolume_def
        ec2_DescribeVolumes_def sim_def has_tag_def w_mounted_def w_unmounted_def
        vol1_def vol1_attached_def Let_def)

end
